theory Spec2Isabelle
  imports Main "HOL-Library.Word" "HOL-Library.Sublist"
begin

section \<open>Python values used by the program\<close>

text \<open>
  The program is a single Python module, \<^verbatim>\<open>ndspacker/__main__.py\<close>. A \<^verbatim>\<open>bytes\<close> object is
  a list of 8-bit words, a Python \<^verbatim>\<open>int\<close> is unbounded (\<open>nat\<close> where the source can only
  produce a non-negative number, \<open>int\<close> otherwise).
\<close>

type_synonym byte = "8 word"

text \<open>
  \<^verbatim>\<open>xs[start:stop]\<close> for non-negative bounds: both bounds are clamped to the length and the
  slice is empty when they cross; it never raises.
\<close>

definition py_slice :: "'a list \<Rightarrow> nat \<Rightarrow> nat \<Rightarrow> 'a list" where
  "py_slice xs start stop = drop start (take stop xs)"

text \<open>\<^verbatim>\<open>int.from_bytes(bs, byteorder="little")\<close> (unsigned), defined for every length.\<close>

fun from_bytes_little :: "byte list \<Rightarrow> nat" where
  "from_bytes_little [] = 0"
| "from_bytes_little (b # bs) = unat b + 256 * from_bytes_little bs"

section \<open>The ROM header reader\<close>

definition read_arm7_from_rom :: "byte list \<Rightarrow> nat \<times> byte list" where
  "read_arm7_from_rom raw_rom =
     (let entrypoint = from_bytes_little (py_slice raw_rom 0x34 (0x34 + 4));
          rom_offset = from_bytes_little (py_slice raw_rom 0x30 (0x30 + 4));
          rom_size = from_bytes_little (py_slice raw_rom 0x3C (0x3C + 4))
      in (entrypoint, py_slice raw_rom rom_offset (rom_offset + rom_size)))"

subsection \<open>The layout as the specification words it\<close>

text \<open>
  The little-endian u32 at a byte offset, and a byte range by positions. These two follow
  the specification's wording, not the code; the theorems below compare them with
  \<^const>\<open>read_arm7_from_rom\<close>.
\<close>

definition u32_le_at :: "byte list \<Rightarrow> nat \<Rightarrow> nat" where
  "u32_le_at raw k =
     unat (raw ! k) + 2 ^ 8 * unat (raw ! (k + 1)) + 2 ^ 16 * unat (raw ! (k + 2))
       + 2 ^ 24 * unat (raw ! (k + 3))"

definition byte_range :: "byte list \<Rightarrow> nat \<Rightarrow> nat \<Rightarrow> byte list" where
  "byte_range raw lo hi = map (\<lambda>i. raw ! i) [lo..<hi]"

text \<open>The synthetic ROM of the specification's example: 0x10000 zero bytes with the three fields set.\<close>

definition synthetic_rom :: "byte list" where
  "synthetic_rom = (replicate 0x10000 0)[0x31 := 0x40, 0x36 := 0x38, 0x37 := 0x02, 0x3D := 0x01]"

section \<open>Python text\<close>

text \<open>
  A \<^verbatim>\<open>str\<close> is a list of characters; a \<open>char\<close> stands for the Unicode code point of the
  same number, so the model covers text whose code points are below 256 (the tools'
  output is ASCII). The character classes below are Python's on that range.
\<close>

definition char_code :: "char \<Rightarrow> nat" where
  "char_code c = of_char c"

text \<open>\<^verbatim>\<open>str.isspace\<close>, the class \<^verbatim>\<open>str.strip()\<close> removes.\<close>

definition is_space :: "char \<Rightarrow> bool" where
  "is_space c =
     (let n = char_code c in (9 \<le> n \<and> n \<le> 13) \<or> (28 \<le> n \<and> n \<le> 32) \<or> n = 133 \<or> n = 160)"

definition py_strip :: "string \<Rightarrow> string" where
  "py_strip s = rev (dropWhile is_space (rev (dropWhile is_space s)))"

text \<open>\<^verbatim>\<open>str.lower\<close>: the ASCII capitals and the Latin-1 capitals (all but the multiplication sign).\<close>

definition lower_char :: "char \<Rightarrow> char" where
  "lower_char c =
     (let n = char_code c
      in if (65 \<le> n \<and> n \<le> 90) \<or> (192 \<le> n \<and> n \<le> 222 \<and> n \<noteq> 215) then char_of (n + 32) else c)"

definition py_lower :: "string \<Rightarrow> string" where
  "py_lower s = map lower_char s"

text \<open>\<^verbatim>\<open>s.replace(a, b)\<close> for one-character \<open>a\<close> and \<open>b\<close>.\<close>

definition py_replace :: "char \<Rightarrow> char \<Rightarrow> string \<Rightarrow> string" where
  "py_replace a b s = map (\<lambda>c. if c = a then b else c) s"

text \<open>\<^verbatim>\<open>s.split(sep, 1)\<close> for a one-character separator: one or two pieces.\<close>

definition py_split1 :: "char \<Rightarrow> string \<Rightarrow> string list" where
  "py_split1 sep s =
     (if sep \<in> set s
      then [takeWhile (\<lambda>c. c \<noteq> sep) s, tl (dropWhile (\<lambda>c. c \<noteq> sep) s)]
      else [s])"

text \<open>
  \<^verbatim>\<open>str.splitlines()\<close>: the line boundaries are LF, VT, FF, CR, CR LF (one boundary), FS, GS,
  RS and NEL; a boundary at the very end opens no further line.
\<close>

definition is_linebreak :: "char \<Rightarrow> bool" where
  "is_linebreak c =
     (let n = char_code c in (10 \<le> n \<and> n \<le> 13) \<or> (28 \<le> n \<and> n \<le> 30) \<or> n = 133)"

fun splitlines_from :: "string \<Rightarrow> string \<Rightarrow> string list" where
  "splitlines_from cur [] = (if cur = [] then [] else [cur])"
| "splitlines_from cur (c # cs) =
     (if is_linebreak c then
        (case cs of
           [] \<Rightarrow> cur # splitlines_from [] cs
         | d # ds \<Rightarrow>
             if char_code c = 13 \<and> char_code d = 10 then cur # splitlines_from [] ds
             else cur # splitlines_from [] cs)
      else splitlines_from (cur @ [c]) cs)"

definition splitlines :: "string \<Rightarrow> string list" where
  "splitlines s = splitlines_from [] s"

text \<open>\<^verbatim>\<open>s.split(sep)\<close> at every occurrence of a one-character separator.\<close>

fun split_on :: "char \<Rightarrow> string \<Rightarrow> string list" where
  "split_on sep [] = [[]]"
| "split_on sep (c # cs) =
     (if c = sep then [] # split_on sep cs
      else (case split_on sep cs of [] \<Rightarrow> [[c]] | p # ps \<Rightarrow> (c # p) # ps))"

fun join_with :: "string \<Rightarrow> string list \<Rightarrow> string" where
  "join_with sep [] = []"
| "join_with sep [p] = p"
| "join_with sep (p # q # ps) = p @ sep @ join_with sep (q # ps)"

subsection \<open>Exceptions\<close>

datatype py_exc =
    IndexError | KeyError | ValueError
  | FileNotFoundError | IsADirectoryError
  | CalledProcessError | TOMLDecodeError
  | MarkupError
  | SystemExit nat

subsection \<open>Integers from and to text\<close>

definition digit_value :: "char \<Rightarrow> nat option" where
  "digit_value c =
     (let n = char_code c
      in if 48 \<le> n \<and> n \<le> 57 then Some (n - 48)
         else if 97 \<le> n \<and> n \<le> 122 then Some (n - 87)
         else if 65 \<le> n \<and> n \<le> 90 then Some (n - 55)
         else None)"

definition digit_in :: "nat \<Rightarrow> char \<Rightarrow> nat option" where
  "digit_in base c =
     (case digit_value c of None \<Rightarrow> None | Some v \<Rightarrow> if v < base then Some v else None)"

text \<open>
  The digits after the first one: a single underscore may stand between two digits. The
  result is the value and the number of digits read.
\<close>

fun int_digits :: "nat \<Rightarrow> nat \<Rightarrow> nat \<Rightarrow> string \<Rightarrow> (nat \<times> nat) option" where
  "int_digits base acc k [] = Some (acc, k)"
| "int_digits base acc k (c # cs) =
     (if c = CHR ''_'' then
        (case cs of
           [] \<Rightarrow> None
         | d # ds \<Rightarrow>
             (case digit_in base d of
                None \<Rightarrow> None
              | Some v \<Rightarrow> int_digits base (acc * base + v) (Suc k) ds))
      else
        (case digit_in base c of
           None \<Rightarrow> None
         | Some v \<Rightarrow> int_digits base (acc * base + v) (Suc k) cs))"

text \<open>The whitespace \<^verbatim>\<open>int()\<close> skips around a number (narrower than \<^const>\<open>is_space\<close>).\<close>

definition is_int_space :: "char \<Rightarrow> bool" where
  "is_int_space c = (let n = char_code c in (9 \<le> n \<and> n \<le> 13) \<or> n = 32 \<or> n = 133 \<or> n = 160)"

text \<open>
  \<^verbatim>\<open>int(s, base)\<close> for base 10 or 16: surrounding whitespace, a sign, for base 16 an
  optional \<^verbatim>\<open>0x\<close> or \<^verbatim>\<open>0X\<close> and one underscore after it, then the digits. Everything else
  is a ValueError, as is a number of more than 4300 digits in a base that is no power
  of two (the interpreter's default limit).
\<close>

definition int_skip_sign :: "string \<Rightarrow> string" where
  "int_skip_sign s = (if take 1 s = ''-'' \<or> take 1 s = ''+'' then drop 1 s else s)"

definition int_skip_prefix :: "nat \<Rightarrow> string \<Rightarrow> string" where
  "int_skip_prefix base s =
     (if base = 16 \<and> (take 2 s = ''0x'' \<or> take 2 s = ''0X'')
      then (if take 1 (drop 2 s) = ''_'' then drop 3 s else drop 2 s)
      else s)"

definition int_magnitude :: "nat \<Rightarrow> string \<Rightarrow> py_exc + nat" where
  "int_magnitude base s =
     (case s of
        [] \<Rightarrow> Inl ValueError
      | c # cs \<Rightarrow>
          (case digit_in base c of
             None \<Rightarrow> Inl ValueError
           | Some v \<Rightarrow>
               (case int_digits base v 1 cs of
                  None \<Rightarrow> Inl ValueError
                | Some (n, k) \<Rightarrow>
                    if base \<noteq> 16 \<and> 4300 < k then Inl ValueError else Inr n)))"

definition py_int :: "string \<Rightarrow> nat \<Rightarrow> py_exc + int" where
  "py_int s base =
     (let s1 = dropWhile is_int_space s;
          negative = (take 1 s1 = ''-'');
          s2 = int_skip_prefix base (int_skip_sign s1);
          s3 = rev (dropWhile is_int_space (rev s2))
      in case int_magnitude base s3 of
           Inl exc \<Rightarrow> Inl exc
         | Inr n \<Rightarrow> Inr (if negative then - int n else int n))"

text \<open>\<^verbatim>\<open>str(n)\<close>: the decimal digits, refused beyond 4300 of them.\<close>

definition digit_char :: "nat \<Rightarrow> char" where
  "digit_char d = ''0123456789'' ! d"

function str_nat :: "nat \<Rightarrow> string" where
  "str_nat n = (if n < 10 then [digit_char n] else str_nat (n div 10) @ [digit_char (n mod 10)])"
  by pat_completeness auto
termination
  by (relation "measure id") auto

declare str_nat.simps [simp del]

definition py_str_int :: "int \<Rightarrow> py_exc + string" where
  "py_str_int n =
     (let ds = str_nat (nat \<bar>n\<bar>)
      in if 4300 < length ds then Inl ValueError
         else Inr (if n < 0 then CHR ''-'' # ds else ds))"

text \<open>
  \<^verbatim>\<open>format(n, "0x")\<close>, as in the f-string field \<^verbatim>\<open>{n:0x}\<close>: a minus sign for a negative
  number and the lower-case hexadecimal digits.
\<close>

definition hex_char :: "nat \<Rightarrow> char" where
  "hex_char d = ''0123456789abcdef'' ! d"

function hex_nat :: "nat \<Rightarrow> string" where
  "hex_nat n = (if n < 16 then [hex_char n] else hex_nat (n div 16) @ [hex_char (n mod 16)])"
  by pat_completeness auto
termination
  by (relation "measure id") auto

declare hex_nat.simps [simp del]

definition py_format_hex :: "int \<Rightarrow> string" where
  "py_format_hex n = (if n < 0 then CHR ''-'' # hex_nat (nat \<bar>n\<bar>) else hex_nat (nat \<bar>n\<bar>))"

subsection \<open>Dictionaries\<close>

text \<open>\<^verbatim>\<open>d[k]\<close> raises KeyError on a missing key; \<^verbatim>\<open>d.get(k, default)\<close> does not.\<close>

definition dict_item :: "('k \<rightharpoonup> 'v) \<Rightarrow> 'k \<Rightarrow> py_exc + 'v" where
  "dict_item d k = (case d k of None \<Rightarrow> Inl KeyError | Some v \<Rightarrow> Inr v)"

definition dict_get :: "('k \<rightharpoonup> 'v) \<Rightarrow> 'k \<Rightarrow> 'v \<Rightarrow> 'v" where
  "dict_get d k dflt = (case d k of None \<Rightarrow> dflt | Some v \<Rightarrow> v)"

subsection \<open>Paths\<close>

text \<open>
  \<^verbatim>\<open>pathlib.Path\<close> on POSIX. A path given as text is parsed into a root and its
  components, empty and \<^verbatim>\<open>.\<close> components dropped; \<^verbatim>\<open>str\<close> renders it back, \<^verbatim>\<open>name\<close> is
  the last component and \<^verbatim>\<open>suffix\<close> the part of the name from its last dot, when that dot
  is neither its first nor its last character.
\<close>

definition posix_root :: "string \<Rightarrow> string" where
  "posix_root p =
     (let n = length (takeWhile (\<lambda>c. c = CHR ''/'') p)
      in if n = 0 then [] else if n = 2 then ''//'' else ''/'')"

definition path_parts :: "string \<Rightarrow> string list" where
  "path_parts p = filter (\<lambda>c. c \<noteq> [] \<and> c \<noteq> ''.'') (split_on CHR ''/'' p)"

definition path_str :: "string \<Rightarrow> string" where
  "path_str p =
     (let s = posix_root p @ join_with ''/'' (path_parts p) in if s = [] then ''.'' else s)"

definition path_name :: "string \<Rightarrow> string" where
  "path_name p = (if path_parts p = [] then [] else last (path_parts p))"

definition path_suffix :: "string \<Rightarrow> string" where
  "path_suffix p =
     (let name = path_name p;
          ext = rev (takeWhile (\<lambda>c. c \<noteq> CHR ''.'') (rev name))
      in if CHR ''.'' \<in> set name \<and> ext \<noteq> [] \<and> length ext + 1 < length name
         then CHR ''.'' # ext else [])"

text \<open>
  \<^verbatim>\<open>Path(d) / name\<close> for a directory \<open>d\<close> that is absolute and already in normal form (the
  working directory, a directory made by \<^verbatim>\<open>tempfile\<close>) and a plain file name.
\<close>

definition path_child :: "string \<Rightarrow> string \<Rightarrow> string" where
  "path_child d name = (if d = ''/'' then d @ name else d @ ''/'' @ name)"

section \<open>The world around the program\<close>

text \<open>
  What the run reads from its surroundings is a record \<open>env\<close>: the command line, the
  answer of \<^verbatim>\<open>shutil.which\<close>, the working directory, the TOML parser, the external tools
  and the directory names \<^verbatim>\<open>tempfile\<close> picks. An external tool is any function from its
  command line and the file system to its standard output (or the exception
  \<^verbatim>\<open>subprocess.run(..., check=True)\<close> raises for it) and a new file system.

  The program prints through \<^verbatim>\<open>rich\<close>, which reads its argument as console markup and
  raises MarkupError when the markup is malformed (a closing tag such as \<^verbatim>\<open>[/x]\<close> that
  matches no open tag); the texts it prints hold paths and header values. Which texts
  \<^verbatim>\<open>rich\<close> accepts is the field \<open>rich_markup_ok\<close>. What appears on the console is not
  part of the model, and the plain \<^verbatim>\<open>builtins.print\<close> of the usage message is taken to
  succeed.
\<close>

datatype node = File "byte list" | Directory

type_synonym filesystem = "string \<rightharpoonup> node"

datatype event = Run "string list" | WriteBytes string "byte list"

record env =
  sys_argv :: "string list"
  shutil_which :: "string \<Rightarrow> string option"
  path_cwd :: string
  tomllib_load :: "byte list \<Rightarrow> py_exc + (string \<rightharpoonup> string)"
  subprocess_run :: "string list \<Rightarrow> filesystem \<Rightarrow> (py_exc + string) \<times> filesystem"
  mkdtemp_name :: "nat \<Rightarrow> string"
  rich_markup_ok :: "string \<Rightarrow> bool"

text \<open>
  What the run changes is a record \<open>world\<close>: the file system, the log of the commands run
  and the files written, in order, and the number of temporary directories made so far.
\<close>

record world =
  files :: filesystem
  events :: "event list"
  tmp_made :: nat

definition path_exists :: "world \<Rightarrow> string \<Rightarrow> bool" where
  "path_exists w p = (files w (path_str p) \<noteq> None)"

definition read_bytes :: "world \<Rightarrow> string \<Rightarrow> py_exc + byte list" where
  "read_bytes w p =
     (case files w p of
        None \<Rightarrow> Inl FileNotFoundError
      | Some Directory \<Rightarrow> Inl IsADirectoryError
      | Some (File content) \<Rightarrow> Inr content)"

text \<open>
  \<^verbatim>\<open>Path.write_bytes\<close>, which the program calls only on a file of a directory it has just
  made: the write is taken to succeed, as is the making of a temporary directory.
\<close>

definition write_bytes :: "string \<Rightarrow> byte list \<Rightarrow> world \<Rightarrow> world" where
  "write_bytes p content w =
     w\<lparr>files := (files w)(p \<mapsto> File content), events := events w @ [WriteBytes p content]\<rparr>"

subsection \<open>Temporary directories\<close>

text \<open>
  \<^verbatim>\<open>with tempfile.TemporaryDirectory(suffix) as d: body\<close> makes a directory, runs the body
  and removes the directory with all it holds, whether the body returned or raised.
\<close>

definition is_inside :: "string \<Rightarrow> string \<Rightarrow> bool" where
  "is_inside d p = (p = d \<or> prefix (path_child d []) p)"

definition mkdtemp :: "env \<Rightarrow> string \<Rightarrow> world \<Rightarrow> string \<times> world" where
  "mkdtemp e sfx w =
     (let d = mkdtemp_name e (tmp_made w) @ sfx
      in (d, w\<lparr>files := (files w)(d \<mapsto> Directory), tmp_made := Suc (tmp_made w)\<rparr>))"

definition rmtree :: "string \<Rightarrow> world \<Rightarrow> world" where
  "rmtree d w = w\<lparr>files := (\<lambda>p. if is_inside d p then None else files w p)\<rparr>"

definition with_TemporaryDirectory ::
  "env \<Rightarrow> string \<Rightarrow> (string \<Rightarrow> world \<Rightarrow> (py_exc + 'a) \<times> world) \<Rightarrow> world \<Rightarrow> (py_exc + 'a) \<times> world"
where
  "with_TemporaryDirectory e sfx body w =
     (let (d, w1) = mkdtemp e sfx w;
          (r, w2) = body d w1
      in (r, rmtree d w2))"

section \<open>Utility functions\<close>

definition get_tool_prefix :: "env \<Rightarrow> py_exc + string" where
  "get_tool_prefix e =
     (if shutil_which e ''arm-none-eabi-readelf'' \<noteq> None then Inr ''arm-none-eabi-''
      else if shutil_which e ''llvm-readelf'' \<noteq> None then Inr ''llvm-''
      else Inl FileNotFoundError)"

text \<open>\<^verbatim>\<open>print\<close> of \<^verbatim>\<open>rich\<close>: nothing when the text is printed, the exception otherwise.\<close>

definition rich_print :: "env \<Rightarrow> string \<Rightarrow> py_exc option" where
  "rich_print e text = (if rich_markup_ok e text then None else Some MarkupError)"

text \<open>The text \<^verbatim>\<open>run_with_echo\<close> prints for a command with the name \<open>c0\<close> and the arguments \<open>args\<close>.\<close>

definition echo_text :: "string \<Rightarrow> string list \<Rightarrow> string" where
  "echo_text c0 args =
     ''[cyan]running command:[/cyan] [pink]'' @ c0 @ ''[/pink] '' @ join_with '' '' args"

definition run_with_echo :: "env \<Rightarrow> string list \<Rightarrow> world \<Rightarrow> (py_exc + string) \<times> world" where
  "run_with_echo e command w =
     (case command of
        [] \<Rightarrow> (Inl IndexError, w)
      | c0 # args \<Rightarrow>
          (case rich_print e (echo_text c0 args) of
             Some exc \<Rightarrow> (Inl exc, w)
           | None \<Rightarrow>
               (let (r, fs') = subprocess_run e command (files w)
                in (r, w\<lparr>files := fs', events := events w @ [Run command]\<rparr>))))"

section \<open>Processing functions\<close>

text \<open>The loop of \<^verbatim>\<open>get_elf_headers\<close> over the lines, with the dictionary it fills.\<close>

fun headers_loop :: "string list \<Rightarrow> (string \<rightharpoonup> string) \<Rightarrow> py_exc + (string \<rightharpoonup> string)" where
  "headers_loop [] headers = Inr headers"
| "headers_loop (line # lines) headers =
     (case py_split1 CHR '':'' line of
        [key, val] \<Rightarrow>
          headers_loop lines
            (headers(py_replace CHR '' '' CHR ''_'' (py_strip (py_lower key)) \<mapsto> py_strip val))
      | _ \<Rightarrow> Inl ValueError)"

definition parse_elf_headers :: "string \<Rightarrow> py_exc + (string \<rightharpoonup> string)" where
  "parse_elf_headers out = headers_loop (drop 1 (splitlines out)) Map.empty"

definition readelf_command :: "string \<Rightarrow> string \<Rightarrow> string list" where
  "readelf_command TOOL_PREFIX elf_path = [TOOL_PREFIX @ ''readelf'', ''-h'', path_str elf_path]"

definition get_elf_headers ::
  "env \<Rightarrow> string \<Rightarrow> string \<Rightarrow> world \<Rightarrow> (py_exc + (string \<rightharpoonup> string)) \<times> world"
where
  "get_elf_headers e TOOL_PREFIX elf_path w =
     (case run_with_echo e (readelf_command TOOL_PREFIX elf_path) w of
        (Inl exc, w') \<Rightarrow> (Inl exc, w')
      | (Inr out, w') \<Rightarrow> (parse_elf_headers out, w'))"

definition objcopy_command :: "string \<Rightarrow> string \<Rightarrow> string \<Rightarrow> string list" where
  "objcopy_command TOOL_PREFIX elf_path output_path =
     [TOOL_PREFIX @ ''objcopy'', ''-O'', ''binary'', path_str elf_path, output_path]"

definition read_from_elf ::
  "env \<Rightarrow> string \<Rightarrow> string \<Rightarrow> world \<Rightarrow> (py_exc + byte list) \<times> world"
where
  "read_from_elf e TOOL_PREFIX elf_path w =
     with_TemporaryDirectory e []
       (\<lambda>tdir w1.
          let output_path = path_child tdir ''out.o''
          in case run_with_echo e (objcopy_command TOOL_PREFIX elf_path output_path) w1 of
               (Inl exc, w2) \<Rightarrow> (Inl exc, w2)
             | (Inr out, w2) \<Rightarrow> (read_bytes w2 output_path, w2))
       w"

section \<open>Main entrypoint\<close>

definition DEFAULT_PACKER_SETTINGS :: "string \<rightharpoonup> string" where
  "DEFAULT_PACKER_SETTINGS =
     [''maker_code'' \<mapsto> ''01'', ''game_code'' \<mapsto> ''ENAE'', ''game_title'' \<mapsto> ''NDSPACKER'']"

text \<open>The texts of the f-strings that \<^verbatim>\<open>main\<close> prints.\<close>

definition no_such_file_text :: "string \<Rightarrow> string" where
  "no_such_file_text p = ''[red]no such file[/red]: '' @ path_str p"

definition not_arm_text :: "string \<Rightarrow> string" where
  "not_arm_text machine = char_of (191 :: nat) # '' this is [red]'' @ machine @ ''[/red], not ARM ?''"

definition entrypoint_text :: "int \<Rightarrow> string" where
  "entrypoint_text ep =
     ''[green]ok![/green] entrypoint is [magenta]0x'' @ py_format_hex ep @ ''[/magenta]''"

definition image_size_text :: "string \<Rightarrow> byte list \<Rightarrow> string" where
  "image_size_text cpu image_data =
     cpu @ '' image size: [magenta]'' @ str_nat (length image_data) @ ''[/magenta] bytes''"

text \<open>
  \<^verbatim>\<open>main\<close> is one function in the source; here each of its steps is a definition, and
  \<open>main\<close> below chains them, every \<^verbatim>\<open>print\<close> in its place. First the command line and
  the two existence checks.
\<close>

definition main_paths :: "env \<Rightarrow> world \<Rightarrow> py_exc + (string \<times> string option)" where
  "main_paths e w =
     (case sys_argv e of
        [] \<Rightarrow> Inl IndexError
      | [prog] \<Rightarrow> Inl (SystemExit 1)
      | prog # a1 # rest \<Rightarrow>
          (let arm9_image = a1;
               arm7_image = (case rest of [] \<Rightarrow> None | a2 # others \<Rightarrow> Some a2)
           in if \<not> path_exists w arm9_image then
                (case rich_print e (no_such_file_text arm9_image) of
                   Some exc \<Rightarrow> Inl exc
                 | None \<Rightarrow> Inl (SystemExit 1))
              else
                (case arm7_image of
                   None \<Rightarrow> Inr (arm9_image, arm7_image)
                 | Some p \<Rightarrow>
                     if \<not> path_exists w p then
                       (case rich_print e (no_such_file_text p) of
                          Some exc \<Rightarrow> Inl exc
                        | None \<Rightarrow> Inl (SystemExit 1))
                     else Inr (arm9_image, arm7_image))))"

text \<open>
  The settings: the table parsed from \<^verbatim>\<open>ndspacker.toml\<close> in the working directory, or
  \<^const>\<open>DEFAULT_PACKER_SETTINGS\<close> when opening or loading raises FileNotFoundError; every
  other exception leaves the \<^verbatim>\<open>try\<close>. Values of the table are taken to be strings.
\<close>

definition load_settings :: "env \<Rightarrow> world \<Rightarrow> py_exc + (string \<rightharpoonup> string)" where
  "load_settings e w =
     (let loaded =
            (case read_bytes w (path_child (path_cwd e) ''ndspacker.toml'') of
               Inl exc \<Rightarrow> Inl exc
             | Inr content \<Rightarrow> tomllib_load e content)
      in case loaded of
           Inl exc \<Rightarrow> if exc = FileNotFoundError then Inr DEFAULT_PACKER_SETTINGS else Inl exc
         | Inr packer_settings \<Rightarrow> Inr packer_settings)"

text \<open>The ARM9 image: its headers, the machine check, the entry point and the flat binary.\<close>

definition arm9_entry_point :: "string \<Rightarrow> py_exc + int" where
  "arm9_entry_point v = py_int (drop 2 v) 16"

text \<open>The two lines printed once an image is loaded: its entry point and its size.\<close>

definition report_image :: "env \<Rightarrow> string \<Rightarrow> int \<Rightarrow> byte list \<Rightarrow> py_exc option" where
  "report_image e cpu ep image_data =
     (case rich_print e (entrypoint_text ep) of
        Some exc \<Rightarrow> Some exc
      | None \<Rightarrow> rich_print e (image_size_text cpu image_data))"

definition read_arm9 ::
  "env \<Rightarrow> string \<Rightarrow> string \<Rightarrow> world \<Rightarrow> (py_exc + int \<times> byte list) \<times> world"
where
  "read_arm9 e TOOL_PREFIX arm9_image w =
     (case rich_print e ''[cyan]reading ARM9 binary...[/cyan]'' of
        Some exc \<Rightarrow> (Inl exc, w)
      | None \<Rightarrow>
          (case get_elf_headers e TOOL_PREFIX arm9_image w of
             (Inl exc, w1) \<Rightarrow> (Inl exc, w1)
           | (Inr arm9_headers, w1) \<Rightarrow>
               (case dict_item arm9_headers ''machine'' of
                  Inl exc \<Rightarrow> (Inl exc, w1)
                | Inr type \<Rightarrow>
                    if type \<noteq> ''ARM'' then
                      (case rich_print e (not_arm_text type) of
                         Some exc \<Rightarrow> (Inl exc, w1)
                       | None \<Rightarrow> (Inl (SystemExit 1), w1))
                    else
                      (case dict_item arm9_headers ''entry_point_address'' of
                         Inl exc \<Rightarrow> (Inl exc, w1)
                       | Inr v \<Rightarrow>
                           (case arm9_entry_point v of
                              Inl exc \<Rightarrow> (Inl exc, w1)
                            | Inr arm9_ep \<Rightarrow>
                                (case read_from_elf e TOOL_PREFIX arm9_image w1 of
                                   (Inl exc, w2) \<Rightarrow> (Inl exc, w2)
                                 | (Inr arm9_data, w2) \<Rightarrow>
                                     (case report_image e ''ARM9'' arm9_ep arm9_data of
                                        Some exc \<Rightarrow> (Inl exc, w2)
                                      | None \<Rightarrow> (Inr (arm9_ep, arm9_data), w2))))))))"

text \<open>
  The ARM7 image: lifted from a ROM, read from an ELF, or the built-in stub
  (\<open>load_arm7\<close>, the \<^verbatim>\<open>if\<close> of the source), and then reported like the ARM9 image.
\<close>

definition arm7_entry_point :: "string \<Rightarrow> py_exc + int" where
  "arm7_entry_point v = py_int v 10"

definition load_arm7 ::
  "env \<Rightarrow> string \<Rightarrow> string option \<Rightarrow> world \<Rightarrow> (py_exc + int \<times> byte list) \<times> world"
where
  "load_arm7 e TOOL_PREFIX arm7_image w =
     (case arm7_image of
        Some p \<Rightarrow>
          if path_suffix p = ''.nds'' then
            (case rich_print e ''[cyan]stealing ARM7 rom image...[/cyan]'' of
               Some exc \<Rightarrow> (Inl exc, w)
             | None \<Rightarrow>
                 (case read_bytes w (path_str p) of
                    Inl exc \<Rightarrow> (Inl exc, w)
                  | Inr raw_data \<Rightarrow>
                      (let (arm7_ep, arm7_data) = read_arm7_from_rom raw_data
                       in (Inr (int arm7_ep, arm7_data), w))))
          else
            (case rich_print e ''[cyan]reading ARM7 binary...'' of
               Some exc \<Rightarrow> (Inl exc, w)
             | None \<Rightarrow>
                 (case get_elf_headers e TOOL_PREFIX p w of
                    (Inl exc, w1) \<Rightarrow> (Inl exc, w1)
                  | (Inr arm7_headers, w1) \<Rightarrow>
                      (case dict_item arm7_headers ''entry_point_address'' of
                         Inl exc \<Rightarrow> (Inl exc, w1)
                       | Inr v \<Rightarrow>
                           (case arm7_entry_point v of
                              Inl exc \<Rightarrow> (Inl exc, w1)
                            | Inr arm7_ep \<Rightarrow>
                                (case read_from_elf e TOOL_PREFIX p w1 of
                                   (Inl exc, w2) \<Rightarrow> (Inl exc, w2)
                                 | (Inr arm7_data, w2) \<Rightarrow> (Inr (arm7_ep, arm7_data), w2))))))
      | None \<Rightarrow> (Inr (0x2380000, [0xfe, 0xff, 0xff, 0xea]), w))"

definition read_arm7 ::
  "env \<Rightarrow> string \<Rightarrow> string option \<Rightarrow> world \<Rightarrow> (py_exc + int \<times> byte list) \<times> world"
where
  "read_arm7 e TOOL_PREFIX arm7_image w =
     (case load_arm7 e TOOL_PREFIX arm7_image w of
        (Inl exc, w1) \<Rightarrow> (Inl exc, w1)
      | (Inr (arm7_ep, arm7_data), w1) \<Rightarrow>
          (case report_image e ''ARM7'' arm7_ep arm7_data of
             Some exc \<Rightarrow> (Inl exc, w1)
           | None \<Rightarrow> (Inr (arm7_ep, arm7_data), w1)))"

text \<open>The metadata and the call of the ROM builder on the two saved blobs.\<close>

definition packer_metadata :: "(string \<rightharpoonup> string) \<Rightarrow> string \<times> string \<times> string" where
  "packer_metadata packer_settings =
     (let maker_code = dict_get packer_settings ''maker_code'' ''01'';
          game_code = dict_get packer_settings ''game_code'' ''ABCD'';
          game_title = dict_get packer_settings ''game_title'' ''NITRO-SDK''
      in (maker_code, game_code, game_title))"

definition ndstool_command ::
  "string \<Rightarrow> string \<Rightarrow> string \<Rightarrow> string \<Rightarrow> string \<times> string \<times> string \<Rightarrow> string list"
where
  "ndstool_command saved_arm9 saved_arm7 e9 e7 meta =
     (case meta of (maker_code, game_code, game_title) \<Rightarrow>
        [''ndstool'',
         ''-c'', ''./rom.nds'',
         ''-9'', saved_arm9,
         ''-7'', saved_arm7,
         ''-e9'', e9, ''-r9'', ''0x2000000'',
         ''-e7'', e7,
         ''-g'', game_code, maker_code, game_title, ''1''])"

definition pack ::
  "env \<Rightarrow> (string \<rightharpoonup> string) \<Rightarrow> int \<Rightarrow> byte list \<Rightarrow> int \<Rightarrow> byte list \<Rightarrow> world
     \<Rightarrow> (py_exc + unit) \<times> world"
where
  "pack e packer_settings arm9_ep arm9_data arm7_ep arm7_data w =
     (let meta = packer_metadata packer_settings
      in with_TemporaryDirectory e ''ndspacker''
           (\<lambda>directory w1.
              let saved_arm9 = path_child directory ''arm9.tmp.bin'';
                  saved_arm7 = path_child directory ''arm7.tmp.bin'';
                  w2 = write_bytes saved_arm9 arm9_data w1;
                  w3 = write_bytes saved_arm7 arm7_data w2
              in case py_str_int arm9_ep of
                   Inl exc \<Rightarrow> (Inl exc, w3)
                 | Inr e9 \<Rightarrow>
                     (case py_str_int arm7_ep of
                        Inl exc \<Rightarrow> (Inl exc, w3)
                      | Inr e7 \<Rightarrow>
                          (case run_with_echo e
                                  (ndstool_command saved_arm9 saved_arm7 e9 e7 meta) w3 of
                             (Inl exc, w4) \<Rightarrow> (Inl exc, w4)
                           | (Inr out, w4) \<Rightarrow> (Inr (), w4))))
           w)"

definition main :: "env \<Rightarrow> string \<Rightarrow> world \<Rightarrow> (py_exc + unit) \<times> world" where
  "main e TOOL_PREFIX w =
     (case main_paths e w of
        Inl exc \<Rightarrow> (Inl exc, w)
      | Inr (arm9_image, arm7_image) \<Rightarrow>
          (case load_settings e w of
             Inl exc \<Rightarrow> (Inl exc, w)
           | Inr packer_settings \<Rightarrow>
               (case read_arm9 e TOOL_PREFIX arm9_image w of
                  (Inl exc, w1) \<Rightarrow> (Inl exc, w1)
                | (Inr (arm9_ep, arm9_data), w1) \<Rightarrow>
                    (case read_arm7 e TOOL_PREFIX arm7_image w1 of
                       (Inl exc, w2) \<Rightarrow> (Inl exc, w2)
                     | (Inr (arm7_ep, arm7_data), w2) \<Rightarrow>
                         pack e packer_settings arm9_ep arm9_data arm7_ep arm7_data w2))))"

text \<open>
  Running the module: \<^verbatim>\<open>TOOL_PREFIX = get_tool_prefix()\<close> is evaluated when the module is
  loaded, before \<^verbatim>\<open>main()\<close> is called. The interpreter's exit status is 0 after a normal
  return, the argument of \<^verbatim>\<open>sys.exit\<close>, and 1 for any other uncaught exception.
\<close>

definition program :: "env \<Rightarrow> world \<Rightarrow> (py_exc + unit) \<times> world" where
  "program e w =
     (case get_tool_prefix e of
        Inl exc \<Rightarrow> (Inl exc, w)
      | Inr TOOL_PREFIX \<Rightarrow> main e TOOL_PREFIX w)"

definition exit_code :: "py_exc + unit \<Rightarrow> nat" where
  "exit_code r = (case r of Inr u \<Rightarrow> 0 | Inl (SystemExit n) \<Rightarrow> n | Inl exc \<Rightarrow> 1)"

section \<open>Notions used to state the properties\<close>

subsection \<open>Header dumps\<close>

text \<open>
  The lines the parser reads, and for one line with a colon the key and the value that
  \<^const>\<open>headers_loop\<close> stores for it.
\<close>

definition header_lines :: "string \<Rightarrow> string list" where
  "header_lines out = drop 1 (splitlines out)"

definition header_key :: "string \<Rightarrow> string" where
  "header_key line =
     py_replace CHR '' '' CHR ''_'' (py_strip (py_lower (takeWhile (\<lambda>c. c \<noteq> CHR '':'') line)))"

definition header_value :: "string \<Rightarrow> string" where
  "header_value line = py_strip (tl (dropWhile (\<lambda>c. c \<noteq> CHR '':'') line))"

text \<open>
  The key as the specification words it: the part before the colon, lower-cased, spaces
  replaced by underscores (and nothing else).
\<close>

definition spec_header_key :: "string \<Rightarrow> string" where
  "spec_header_key line =
     py_replace CHR '' '' CHR ''_'' (py_lower (takeWhile (\<lambda>c. c \<noteq> CHR '':'') line))"

text \<open>A list of pairs read as a mapping in which a later pair overwrites an earlier one.\<close>

definition last_wins :: "('k \<times> 'v) list \<Rightarrow> 'k \<Rightarrow> 'v \<Rightarrow> bool" where
  "last_wins ps k v = (\<exists>xs ys. ps = xs @ (k, v) # ys \<and> k \<notin> fst ` set ys)"

text \<open>What \<^verbatim>\<open>get_elf_headers(...)[k]\<close> gives when the tool printed \<open>out\<close>.\<close>

definition header_field :: "string \<Rightarrow> string \<Rightarrow> py_exc + string" where
  "header_field out k =
     (case parse_elf_headers out of Inl exc \<Rightarrow> Inl exc | Inr headers \<Rightarrow> dict_item headers k)"

subsection \<open>Hexadecimal numbers\<close>

text \<open>The number a string of hexadecimal digits denotes, by the table of the digits.\<close>

definition hex_table :: "(char \<times> nat) list" where
  "hex_table =
     [(CHR ''0'', 0), (CHR ''1'', 1), (CHR ''2'', 2), (CHR ''3'', 3), (CHR ''4'', 4),
      (CHR ''5'', 5), (CHR ''6'', 6), (CHR ''7'', 7), (CHR ''8'', 8), (CHR ''9'', 9),
      (CHR ''a'', 10), (CHR ''b'', 11), (CHR ''c'', 12), (CHR ''d'', 13), (CHR ''e'', 14),
      (CHR ''f'', 15),
      (CHR ''A'', 10), (CHR ''B'', 11), (CHR ''C'', 12), (CHR ''D'', 13), (CHR ''E'', 14),
      (CHR ''F'', 15)]"

definition is_hex_digit :: "char \<Rightarrow> bool" where
  "is_hex_digit c = (map_of hex_table c \<noteq> None)"

definition hex_digit :: "char \<Rightarrow> nat" where
  "hex_digit c = (case map_of hex_table c of None \<Rightarrow> 0 | Some d \<Rightarrow> d)"

definition hex_number :: "string \<Rightarrow> nat" where
  "hex_number ds = foldl (\<lambda>a c. 16 * a + hex_digit c) 0 ds"

definition is_hex_letter :: "char \<Rightarrow> bool" where
  "is_hex_letter c = (c \<in> set ''abcdefABCDEF'')"

text \<open>The number a string of decimal digits denotes, by the first ten rows of the table.\<close>

definition is_decimal_digit :: "char \<Rightarrow> bool" where
  "is_decimal_digit c = (map_of (take 10 hex_table) c \<noteq> None)"

definition decimal_digit :: "char \<Rightarrow> nat" where
  "decimal_digit c = (case map_of (take 10 hex_table) c of None \<Rightarrow> 0 | Some d \<Rightarrow> d)"

definition decimal_number :: "string \<Rightarrow> nat" where
  "decimal_number ds = foldl (\<lambda>a c. 10 * a + decimal_digit c) 0 ds"

text \<open>
  The characters that cannot occur in a base-10 number: no decimal digit, underscore,
  space or sign.
\<close>

definition not_decimal :: "char \<Rightarrow> bool" where
  "not_decimal c \<longleftrightarrow> digit_in 10 c = None \<and> c \<noteq> CHR ''_'' \<and> \<not> is_int_space c
       \<and> c \<noteq> CHR ''-'' \<and> c \<noteq> CHR ''+''"

subsection \<open>The log of a run\<close>

text \<open>Whether a log holds a run of the tool of the given name.\<close>

definition invokes :: "string \<Rightarrow> event list \<Rightarrow> bool" where
  "invokes tool_name evs = (\<exists>command. Run command \<in> set evs \<and> take 1 command = [tool_name])"

text \<open>The path of a blob saved for the packer by a \<^const>\<open>pack\<close> that starts in world \<open>w\<close>.\<close>

definition saved_blob :: "env \<Rightarrow> world \<Rightarrow> string \<Rightarrow> string" where
  "saved_blob e w name = path_child (mkdtemp_name e (tmp_made w) @ ''ndspacker'') name"

text \<open>
  A packer command in the log \<open>new\<close> of a run with the outcome \<open>result\<close>, built and started
  with the default ARM7 image: its \<^verbatim>\<open>-e7\<close> argument is the text of 0x02380000; its \<^verbatim>\<open>-9\<close>
  and \<^verbatim>\<open>-7\<close> arguments are \<^verbatim>\<open>arm9.tmp.bin\<close> and \<^verbatim>\<open>arm7.tmp.bin\<close> of one directory; the two
  entries just before it in the log are the writes of the saved blobs; the command was
  handed to \<^verbatim>\<open>subprocess.run\<close> on a file system in which the file after \<^verbatim>\<open>-7\<close> holds the
  bytes FE FF FF EA (and the file after \<^verbatim>\<open>-9\<close> the ARM9 blob); and the run ended as the
  packer did, leaving what the packer left outside the temporary directory.
\<close>

definition default_arm7_call ::
  "env \<Rightarrow> (py_exc + unit) \<times> world \<Rightarrow> event list \<Rightarrow> string list \<Rightarrow> bool"
where
  "default_arm7_call e result new command \<longleftrightarrow>
     (\<exists>saved_arm9 saved_arm7 arm9_data e9 meta before fs directory.
         command = ndstool_command saved_arm9 saved_arm7 e9 ''37224448'' meta
       \<and> saved_arm9 = path_child directory ''arm9.tmp.bin''
       \<and> saved_arm7 = path_child directory ''arm7.tmp.bin''
       \<and> new = before @ [WriteBytes saved_arm9 arm9_data,
                          WriteBytes saved_arm7 [0xfe, 0xff, 0xff, 0xea],
                          Run command]
       \<and> fs saved_arm9 = Some (File arm9_data)
       \<and> fs saved_arm7 = Some (File [0xfe, 0xff, 0xff, 0xea])
       \<and> fst result = (case fst (subprocess_run e command fs) of
                         Inl exc \<Rightarrow> Inl exc | Inr out \<Rightarrow> Inr ())
       \<and> files (snd result) =
           (\<lambda>p. if is_inside directory p then None else snd (subprocess_run e command fs) p))"

text \<open>Whether \<^verbatim>\<open>run_with_echo\<close> gets past its \<^verbatim>\<open>print\<close> for a command.\<close>

definition echoed :: "env \<Rightarrow> string list \<Rightarrow> bool" where
  "echoed e command =
     (case command of [] \<Rightarrow> False | c0 # args \<Rightarrow> rich_markup_ok e (echo_text c0 args))"

text \<open>A log that holds runs of \<^verbatim>\<open>readelf\<close> and \<^verbatim>\<open>objcopy\<close> only.\<close>

definition inspections :: "string \<Rightarrow> event list \<Rightarrow> bool" where
  "inspections P evs =
     list_all (\<lambda>ev. case ev of
                      Run command \<Rightarrow> take 1 command = [P @ ''readelf''] \<or> take 1 command = [P @ ''objcopy'']
                    | WriteBytes path content \<Rightarrow> False) evs"

text \<open>
  A run with no ARM7 path that gets as far as starting the packer: the command line and
  the settings are read, the ARM9 image is loaded, the two messages about the default
  ARM7 image are printed, the ARM9 entry point has a decimal text, and the echo of the
  packer command is printed.
\<close>

definition packer_reached :: "env \<Rightarrow> string \<Rightarrow> world \<Rightarrow> bool" where
  "packer_reached e TOOL_PREFIX w \<longleftrightarrow>
     (\<exists>arm9_image packer_settings arm9_ep arm9_data e9.
         main_paths e w = Inr (arm9_image, None)
       \<and> load_settings e w = Inr packer_settings
       \<and> fst (read_arm9 e TOOL_PREFIX arm9_image w) = Inr (arm9_ep, arm9_data)
       \<and> report_image e ''ARM7'' 0x2380000 [0xfe, 0xff, 0xff, 0xea] = None
       \<and> py_str_int arm9_ep = Inr e9
       \<and> echoed e
            (ndstool_command
               (saved_blob e (snd (read_arm9 e TOOL_PREFIX arm9_image w)) ''arm9.tmp.bin'')
               (saved_blob e (snd (read_arm9 e TOOL_PREFIX arm9_image w)) ''arm7.tmp.bin'')
               e9 ''37224448'' (packer_metadata packer_settings)))"

text \<open>A log in which no file is written.\<close>

definition no_writes :: "event list \<Rightarrow> bool" where
  "no_writes evs = (\<forall>path content. WriteBytes path content \<notin> set evs)"

subsection \<open>Example inputs\<close>

text \<open>A ROM cut off after its offset field, which points far beyond the end.\<close>

definition truncated_rom :: "byte list" where
  "truncated_rom = replicate 0x30 0 @ [0xff, 0xff, 0xff, 0xff]"

text \<open>
  A small surrounding for concrete runs: \<^verbatim>\<open>llvm-readelf\<close> is installed and prints the
  given dump, \<^verbatim>\<open>llvm-objcopy\<close> writes three bytes to its output file, \<^verbatim>\<open>ndstool\<close> writes
  the ROM; no \<^verbatim>\<open>ndspacker.toml\<close> exists, and every text is printed.
\<close>

definition arm_dump :: string where
  "arm_dump =
     ''ELF Header:\<newline>  Class:           ELF32\<newline>  Machine:         ARM\<newline>  Entry point address:   0x2000000\<newline>''"

definition x86_dump :: string where
  "x86_dump =
     ''ELF Header:\<newline>  Class:           ELF64\<newline>  Machine:         Advanced Micro Devices X86-64\<newline>  Entry point address:   0x401000\<newline>''"

definition decimal_dump :: string where
  "decimal_dump =
     ''ELF Header:\<newline>  Class:           ELF32\<newline>  Machine:         ARM\<newline>  Entry point address:   8000\<newline>''"

definition tagged_dump :: string where
  "tagged_dump =
     ''ELF Header:\<newline>  Class:           ELF32\<newline>  Machine:         [/x]\<newline>  Entry point address:   0x2000000\<newline>''"

definition demo_run :: "string \<Rightarrow> string list \<Rightarrow> filesystem \<Rightarrow> (py_exc + string) \<times> filesystem" where
  "demo_run dump command fs =
     (if take 1 command = [''llvm-readelf''] then (Inr dump, fs)
      else if take 1 command = [''llvm-objcopy''] then (Inr [], fs(last command \<mapsto> File [1, 2, 3]))
      else if take 1 command = [''ndstool''] then (Inr [], fs(''./rom.nds'' \<mapsto> File []))
      else (Inl FileNotFoundError, fs))"

definition demo_env :: "string \<Rightarrow> string list \<Rightarrow> env" where
  "demo_env dump args =
     \<lparr>sys_argv = ''ndspacker'' # args,
      shutil_which =
        (\<lambda>name. if name = ''llvm-readelf'' then Some ''/usr/bin/llvm-readelf'' else None),
      path_cwd = ''/work'',
      tomllib_load = (\<lambda>content. Inr Map.empty),
      subprocess_run = demo_run dump,
      mkdtemp_name = (\<lambda>n. if n = 0 then ''/tmp/tmpa'' else ''/tmp/tmpb''),
      rich_markup_ok = (\<lambda>text. True)\<rparr>"

definition demo_world :: world where
  "demo_world =
     \<lparr>files = [''game.elf'' \<mapsto> File [0x7f], ''arm7.elf'' \<mapsto> File [0x7f]],
      events = [], tmp_made = 0\<rparr>"

text \<open>The same surrounding with tools that leave an output file behind and exit non-zero.\<close>

definition failing_env :: "string \<Rightarrow> string list \<Rightarrow> env" where
  "failing_env dump args =
     (demo_env dump args)
       \<lparr>subprocess_run := (\<lambda>command fs. (Inl CalledProcessError, fs(last command \<mapsto> File [])))\<rparr>"

text \<open>
  The same surrounding with a \<^verbatim>\<open>rich\<close> that refuses the message about the machine value
  \<^verbatim>\<open>[/x]\<close>, a closing tag with no open tag.
\<close>

definition markup_env :: "string \<Rightarrow> string list \<Rightarrow> env" where
  "markup_env dump args =
     (demo_env dump args)\<lparr>rich_markup_ok := (\<lambda>text. text \<noteq> not_arm_text ''[/x]'')\<rparr>"

text \<open>The example world with an \<^verbatim>\<open>ndspacker.toml\<close> that defines no key.\<close>

definition settings_world :: world where
  "settings_world = demo_world\<lparr>files := (files demo_world)(''/work/ndspacker.toml'' \<mapsto> File [])\<rparr>"

text \<open>The example surrounding with both tool families installed, and with neither.\<close>

definition both_tools_env :: env where
  "both_tools_env =
     (demo_env arm_dump [''game.elf''])\<lparr>shutil_which := (\<lambda>name. Some (''/usr/bin/'' @ name))\<rparr>"

definition no_tools_env :: env where
  "no_tools_env = (demo_env arm_dump [''game.elf''])\<lparr>shutil_which := (\<lambda>name. None)\<rparr>"

section \<open>Properties of the ROM header reader\<close>

lemma py_slice_four:
  assumes "k + 4 \<le> length xs"
  shows "py_slice xs k (k + 4) = [xs ! k, xs ! (k + 1), xs ! (k + 2), xs ! (k + 3)]"
proof (rule nth_equalityI)
  show "length (py_slice xs k (k + 4)) = length [xs ! k, xs ! (k + 1), xs ! (k + 2), xs ! (k + 3)]"
    using assms by (simp add: py_slice_def)
next
  fix i assume "i < length (py_slice xs k (k + 4))"
  then have "i < 4" using assms by (simp add: py_slice_def)
  then consider "i = 0" | "i = 1" | "i = 2" | "i = 3" by linarith
  then show "py_slice xs k (k + 4) ! i = [xs ! k, xs ! (k + 1), xs ! (k + 2), xs ! (k + 3)] ! i"
    using assms by cases (simp_all add: py_slice_def)
qed

lemma from_bytes_little_u32:
  "k + 4 \<le> length raw \<Longrightarrow> from_bytes_little (py_slice raw k (k + 4)) = u32_le_at raw k"
  by (simp add: py_slice_four u32_le_at_def)

lemma py_slice_byte_range:
  "hi \<le> length raw \<Longrightarrow> py_slice raw lo hi = byte_range raw lo hi"
  by (rule nth_equalityI) (simp_all add: py_slice_def byte_range_def)

lemma from_bytes_little_bound: "from_bytes_little bs < 256 ^ length bs"
proof (induction bs)
  case Nil
  show ?case by simp
next
  case (Cons b bs)
  have "unat b < 256" using unsigned_less [of b, where ?'a = nat] by simp
  with Cons show ?case by simp
qed

lemma py_slice_take_drop: "py_slice xs a (a + n) = take n (drop a xs)"
  by (simp add: py_slice_def drop_take)

text \<open>
  Claim C1. For a ROM of at least 0x40 bytes whose offset and size fields stay within it,
  \<^const>\<open>read_arm7_from_rom\<close> returns the little-endian u32 at 0x34 as the entry point and
  exactly the bytes at positions \<open>rom_offset \<le> i < rom_offset + rom_size\<close>, the offset being
  the u32 at 0x30 and the size the u32 at 0x3C. In particular every 0x10000-byte buffer
  that encodes offset 0x4000, size 0x100 and entry point 0x02380000 yields
  \<open>(0x02380000, buffer[0x4000:0x4100])\<close>.
\<close>

theorem read_arm7_from_rom_layout:
  "(0x40 \<le> length raw \<and> u32_le_at raw 0x30 + u32_le_at raw 0x3C \<le> length raw \<longrightarrow>
      read_arm7_from_rom raw =
        (u32_le_at raw 0x34,
         byte_range raw (u32_le_at raw 0x30) (u32_le_at raw 0x30 + u32_le_at raw 0x3C)))
   \<and> (length buf = 0x10000 \<and> u32_le_at buf 0x30 = 0x4000 \<and> u32_le_at buf 0x3C = 0x100
        \<and> u32_le_at buf 0x34 = 0x02380000 \<longrightarrow>
      read_arm7_from_rom buf = (0x02380000, byte_range buf 0x4000 0x4100))"
proof -
  have general: "read_arm7_from_rom r =
        (u32_le_at r 0x34, byte_range r (u32_le_at r 0x30) (u32_le_at r 0x30 + u32_le_at r 0x3C))"
    if len: "0x40 \<le> length r" and fit: "u32_le_at r 0x30 + u32_le_at r 0x3C \<le> length r" for r
  proof -
    have ep: "from_bytes_little (py_slice r 0x34 (0x34 + 4)) = u32_le_at r 0x34"
      using len by (intro from_bytes_little_u32) simp
    have off: "from_bytes_little (py_slice r 0x30 (0x30 + 4)) = u32_le_at r 0x30"
      using len by (intro from_bytes_little_u32) simp
    have sz: "from_bytes_little (py_slice r 0x3C (0x3C + 4)) = u32_le_at r 0x3C"
      using len by (intro from_bytes_little_u32) simp
    show ?thesis
      unfolding read_arm7_from_rom_def Let_def ep off sz
      using fit by (simp add: py_slice_byte_range)
  qed
  show ?thesis
  proof (intro conjI impI)
    assume "0x40 \<le> length raw \<and> u32_le_at raw 0x30 + u32_le_at raw 0x3C \<le> length raw"
    then show "read_arm7_from_rom raw =
        (u32_le_at raw 0x34,
         byte_range raw (u32_le_at raw 0x30) (u32_le_at raw 0x30 + u32_le_at raw 0x3C))"
      using general by blast
  next
    assume h: "length buf = 0x10000 \<and> u32_le_at buf 0x30 = 0x4000 \<and> u32_le_at buf 0x3C = 0x100
        \<and> u32_le_at buf 0x34 = 0x02380000"
    then have "0x40 \<le> length buf" and "u32_le_at buf 0x30 + u32_le_at buf 0x3C \<le> length buf"
      by simp_all
    from general [OF this] h
    show "read_arm7_from_rom buf = (0x02380000, byte_range buf 0x4000 0x4100)"
      by simp
  qed
qed

text \<open>The example of the specification, run on \<^const>\<open>synthetic_rom\<close>.\<close>

lemma synthetic_rom_fields:
  "length synthetic_rom = 0x10000"
  "u32_le_at synthetic_rom 0x30 = 0x4000"
  "u32_le_at synthetic_rom 0x3C = 0x100"
  "u32_le_at synthetic_rom 0x34 = 0x02380000"
  by (simp_all add: synthetic_rom_def u32_le_at_def)

theorem read_arm7_from_rom_layout_witness:
  "0x40 \<le> length synthetic_rom
   \<and> u32_le_at synthetic_rom 0x30 + u32_le_at synthetic_rom 0x3C \<le> length synthetic_rom
   \<and> length synthetic_rom = 0x10000
   \<and> u32_le_at synthetic_rom 0x30 = 0x4000 \<and> u32_le_at synthetic_rom 0x3C = 0x100
   \<and> u32_le_at synthetic_rom 0x34 = 0x02380000
   \<and> read_arm7_from_rom synthetic_rom = (0x02380000, byte_range synthetic_rom 0x4000 0x4100)"
  using read_arm7_from_rom_layout [of synthetic_rom synthetic_rom]
  by (simp add: synthetic_rom_fields)

text \<open>
  Claim C2. \<^const>\<open>read_arm7_from_rom\<close> has a result for every byte string; no step of it
  can raise, since slicing clamps its bounds and \<^verbatim>\<open>int.from_bytes\<close> accepts any length.
  The entry point is read from whatever bytes exist at 0x34..0x37 (it is 0 when there are
  none), and the blob is the slice at the encoded offset, cut off at the end of the input:
  it has \<open>min rom_size (length raw - rom_offset)\<close> bytes and is empty when the offset lies
  at or beyond the end.
\<close>

theorem read_arm7_from_rom_total:
  "\<exists>entrypoint rom_offset rom_size blob.
      read_arm7_from_rom raw = (entrypoint, blob)
    \<and> entrypoint = from_bytes_little (take 4 (drop 0x34 raw))
    \<and> rom_offset = from_bytes_little (take 4 (drop 0x30 raw))
    \<and> rom_size = from_bytes_little (take 4 (drop 0x3C raw))
    \<and> entrypoint < 2 ^ 32
    \<and> (length raw \<le> 0x34 \<longrightarrow> entrypoint = 0)
    \<and> blob = take rom_size (drop rom_offset raw)
    \<and> length blob = min rom_size (length raw - rom_offset)
    \<and> (length raw \<le> rom_offset \<longrightarrow> blob = [])"
proof -
  have "from_bytes_little (take 4 (drop 0x34 raw)) < 256 ^ length (take 4 (drop 0x34 raw))"
    by (rule from_bytes_little_bound)
  also have "\<dots> \<le> (256::nat) ^ 4"
    by (rule power_increasing) simp_all
  finally have "from_bytes_little (take 4 (drop 0x34 raw)) < 2 ^ 32" by simp
  moreover have "py_slice raw 0x34 (0x34 + 4) = take 4 (drop 0x34 raw)"
    and "py_slice raw 0x30 (0x30 + 4) = take 4 (drop 0x30 raw)"
    and "py_slice raw 0x3C (0x3C + 4) = take 4 (drop 0x3C raw)"
    and "\<And>a n. py_slice raw a (a + n) = take n (drop a raw)"
    by (rule py_slice_take_drop)+
  ultimately show ?thesis
    unfolding read_arm7_from_rom_def Let_def by (simp add: min.commute)
qed

text \<open>A ROM shorter than 0x40 bytes whose offset field points beyond its end.\<close>

lemma truncated_rom_fields:
  "length truncated_rom = 0x34"
  "take 4 (drop 0x30 truncated_rom) = [0xff, 0xff, 0xff, 0xff]"
  "take 4 (drop 0x34 truncated_rom) = []"
  "take 4 (drop 0x3C truncated_rom) = []"
  by (simp_all add: truncated_rom_def)

theorem read_arm7_from_rom_total_witness:
  "length truncated_rom \<le> 0x34
   \<and> length truncated_rom \<le> from_bytes_little (take 4 (drop 0x30 truncated_rom))
   \<and> read_arm7_from_rom truncated_rom = (0, [])"
  using read_arm7_from_rom_total [of truncated_rom]
  by (auto simp add: truncated_rom_fields)

section \<open>Properties of the header parser\<close>

lemma map_of_rev_last_wins: "map_of (rev ps) k = Some v \<longleftrightarrow> last_wins ps k v"
proof (induction ps rule: rev_induct)
  case Nil
  show ?case by (simp add: last_wins_def)
next
  case (snoc p ps)
  show ?case
  proof (cases "fst p = k")
    case True
    have "last_wins (ps @ [p]) k v \<longleftrightarrow> snd p = v"
    proof
      assume "last_wins (ps @ [p]) k v"
      then obtain xs ys where eq: "ps @ [p] = xs @ (k, v) # ys" and nk: "k \<notin> fst ` set ys"
        by (auto simp: last_wins_def)
      show "snd p = v"
      proof (cases ys rule: rev_cases)
        case Nil
        with eq show ?thesis by simp
      next
        case (snoc zs z)
        with eq have "z = p" by simp
        with snoc nk True show ?thesis by simp
      qed
    next
      assume "snd p = v"
      with True have "ps @ [p] = ps @ (k, v) # []" by (cases p) simp
      then show "last_wins (ps @ [p]) k v" unfolding last_wins_def by fastforce
    qed
    with True show ?thesis by (cases p) auto
  next
    case False
    have "last_wins (ps @ [p]) k v \<longleftrightarrow> last_wins ps k v"
    proof
      assume "last_wins (ps @ [p]) k v"
      then obtain xs ys where eq: "ps @ [p] = xs @ (k, v) # ys" and nk: "k \<notin> fst ` set ys"
        by (auto simp: last_wins_def)
      show "last_wins ps k v"
      proof (cases ys rule: rev_cases)
        case Nil
        with eq False show ?thesis by auto
      next
        case (snoc zs z)
        with eq have "ps = xs @ (k, v) # zs" by simp
        moreover from snoc nk have "k \<notin> fst ` set zs" by simp
        ultimately show ?thesis unfolding last_wins_def by blast
      qed
    next
      assume "last_wins ps k v"
      then obtain xs ys where eq: "ps = xs @ (k, v) # ys" and nk: "k \<notin> fst ` set ys"
        by (auto simp: last_wins_def)
      then have "ps @ [p] = xs @ (k, v) # (ys @ [p])" and "k \<notin> fst ` set (ys @ [p])"
        using False by auto
      then show "last_wins (ps @ [p]) k v" unfolding last_wins_def by blast
    qed
    with False snoc show ?thesis by (cases p) auto
  qed
qed

lemma headers_loop_colon:
  "CHR '':'' \<in> set l \<Longrightarrow>
     headers_loop (l # ls) h = headers_loop ls (h(header_key l \<mapsto> header_value l))"
  by (simp add: py_split1_def header_key_def header_value_def)

lemma headers_loop_no_colon:
  "CHR '':'' \<notin> set l \<Longrightarrow> headers_loop (l # ls) h = Inl ValueError"
  by (simp add: py_split1_def)

lemma map_add_map_of_snoc:
  "h ++ map_of (ps @ [(k, v)]) = h(k \<mapsto> v) ++ map_of ps"
  by (rule ext) (simp add: map_add_def split: option.splits)

lemma headers_loop_eq:
  "headers_loop ls h =
     (if \<forall>l \<in> set ls. CHR '':'' \<in> set l
      then Inr (h ++ map_of (rev (map (\<lambda>l. (header_key l, header_value l)) ls)))
      else Inl ValueError)"
proof (induction ls arbitrary: h)
  case Nil
  show ?case by simp
next
  case (Cons l ls)
  show ?case
  proof (cases "CHR '':'' \<in> set l")
    case False
    then have "\<not> (\<forall>l \<in> set (l # ls). CHR '':'' \<in> set l)" by (meson list.set_intros(1))
    then show ?thesis using headers_loop_no_colon [OF False, of ls h] by (simp only: if_False)
  next
    case True
    have "headers_loop (l # ls) h = headers_loop ls (h(header_key l \<mapsto> header_value l))"
      using True by (rule headers_loop_colon)
    also have "\<dots> = (if \<forall>l \<in> set ls. CHR '':'' \<in> set l
      then Inr (h(header_key l \<mapsto> header_value l) ++ map_of (rev (map (\<lambda>l. (header_key l, header_value l)) ls)))
      else Inl ValueError)"
      by (rule Cons.IH)
    also have "\<dots> = (if \<forall>l \<in> set (l # ls). CHR '':'' \<in> set l
      then Inr (h ++ map_of (rev (map (\<lambda>l. (header_key l, header_value l)) (l # ls))))
      else Inl ValueError)"
      using True by (simp add: map_add_map_of_snoc)
    finally show ?thesis .
  qed
qed

text \<open>
  Claim C7, as amended. The parser ignores the first line. When every later line holds a
  colon, it returns the mapping that holds, for each such line, the key \<^const>\<open>header_key\<close>
  (the part before the first colon, lower-cased, then trimmed of surrounding whitespace,
  then with each space replaced by an underscore) with the value \<^const>\<open>header_value\<close> (the
  part after the first colon, trimmed), a later line overwriting an earlier one of the
  same key, and nothing else. When some later line holds no colon, it raises ValueError.
\<close>

theorem parse_elf_headers_pairs:
  "(if \<forall>line \<in> set (header_lines out). CHR '':'' \<in> set line
    then \<exists>headers. parse_elf_headers out = Inr headers
           \<and> (\<forall>k v. headers k = Some v \<longleftrightarrow>
                  last_wins (map (\<lambda>line. (header_key line, header_value line)) (header_lines out)) k v)
    else parse_elf_headers out = Inl ValueError)"
  by (simp add: parse_elf_headers_def header_lines_def headers_loop_eq map_of_rev_last_wins)

text \<open>Two dumps: one with an indented line, as \<^verbatim>\<open>readelf\<close> prints it, one without colon.\<close>

lemma key_dump_pairs:
  "map (\<lambda>line. (header_key line, header_value line))
      (header_lines ''ELF Header:\<newline>  Machine:    ARM\<newline>'') = [(''machine'', ''ARM'')]"
  "map (\<lambda>line. (spec_header_key line, header_value line))
      (header_lines ''ELF Header:\<newline>  Machine:    ARM\<newline>'') = [(''__machine'', ''ARM'')]"
  "\<forall>line \<in> set (header_lines ''ELF Header:\<newline>  Machine:    ARM\<newline>''). CHR '':'' \<in> set line"
  "\<not> (\<forall>line \<in> set (header_lines ''ELF Header:\<newline>  Machine     ARM\<newline>''). CHR '':'' \<in> set line)"
  by code_simp+

text \<open>
  Claim C7 as stated fails: for the line \<^verbatim>\<open>"  Machine:    ARM"\<close> the key of the claim
  (lower-cased, spaces replaced, not trimmed) is \<^verbatim>\<open>__machine\<close>, while the parser stores
  \<^verbatim>\<open>machine\<close> and has no key \<^verbatim>\<open>__machine\<close>; and a dump with a line without colon
  has no resulting mapping at all.
\<close>

theorem parse_elf_headers_as_stated_counterexample:
  "header_field ''ELF Header:\<newline>  Machine:    ARM\<newline>'' ''machine'' = Inr ''ARM''
   \<and> header_field ''ELF Header:\<newline>  Machine:    ARM\<newline>'' ''__machine'' = Inl KeyError
   \<and> map (\<lambda>line. (spec_header_key line, header_value line))
         (header_lines ''ELF Header:\<newline>  Machine:    ARM\<newline>'') = [(''__machine'', ''ARM'')]
   \<and> header_field ''ELF Header:\<newline>  Machine     ARM\<newline>'' ''machine'' = Inl ValueError"
  by code_simp

theorem parse_elf_headers_pairs_witness:
  "list_all (\<lambda>line. CHR '':'' \<in> set line) (header_lines ''ELF Header:\<newline>  Machine:    ARM\<newline>'')
   \<and> (\<exists>headers. parse_elf_headers ''ELF Header:\<newline>  Machine:    ARM\<newline>'' = Inr headers
          \<and> headers ''machine'' = Some ''ARM'')
   \<and> \<not> list_all (\<lambda>line. CHR '':'' \<in> set line) (header_lines ''ELF Header:\<newline>  Machine     ARM\<newline>'')
   \<and> parse_elf_headers ''ELF Header:\<newline>  Machine     ARM\<newline>'' = Inl ValueError"
proof -
  have lw: "last_wins [(''machine'', ''ARM'')] ''machine'' ''ARM''"
    unfolding last_wins_def by (intro exI [of _ "[]"]) simp
  from parse_elf_headers_pairs [of "''ELF Header:\<newline>  Machine:    ARM\<newline>''",
      unfolded if_P [OF key_dump_pairs(3)] key_dump_pairs(1)]
  obtain headers where
    "parse_elf_headers ''ELF Header:\<newline>  Machine:    ARM\<newline>'' = Inr headers"
    "\<forall>k v. headers k = Some v \<longleftrightarrow> last_wins [(''machine'', ''ARM'')] k v"
    by blast
  with lw have good: "\<exists>headers. parse_elf_headers ''ELF Header:\<newline>  Machine:    ARM\<newline>'' = Inr headers
          \<and> headers ''machine'' = Some ''ARM''"
    by blast
  from parse_elf_headers_pairs [of "''ELF Header:\<newline>  Machine     ARM\<newline>''",
      unfolded if_not_P [OF key_dump_pairs(4)]]
  have bad: "parse_elf_headers ''ELF Header:\<newline>  Machine     ARM\<newline>'' = Inl ValueError"
    .
  from key_dump_pairs(3,4)
  have "list_all (\<lambda>line. CHR '':'' \<in> set line) (header_lines ''ELF Header:\<newline>  Machine:    ARM\<newline>'')"
    and "\<not> list_all (\<lambda>line. CHR '':'' \<in> set line) (header_lines ''ELF Header:\<newline>  Machine     ARM\<newline>'')"
    by (simp_all only: list_all_iff not_False_eq_True)
  with good bad show ?thesis
    by (intro conjI)
qed

section \<open>Properties of the steps of a run\<close>

lemma rich_print_None [simp]: "rich_print e text = None \<longleftrightarrow> rich_markup_ok e text"
  by (simp add: rich_print_def)

lemma rich_print_Some [simp]: "rich_print e text = Some exc \<longleftrightarrow> \<not> rich_markup_ok e text \<and> exc = MarkupError"
  by (auto simp add: rich_print_def)

lemma rich_print_ok [simp]: "rich_markup_ok e text \<Longrightarrow> rich_print e text = None"
  by (simp add: rich_print_def)

lemma rich_print_refused [simp]: "\<not> rich_markup_ok e text \<Longrightarrow> rich_print e text = Some MarkupError"
  by (simp add: rich_print_def)

lemma run_with_echo_echoed:
  "echoed e command \<Longrightarrow>
     run_with_echo e command w =
       (fst (subprocess_run e command (files w)),
        w\<lparr>files := snd (subprocess_run e command (files w)), events := events w @ [Run command]\<rparr>)"
  by (cases command) (simp_all add: run_with_echo_def echoed_def rich_print_def split_beta)

lemma run_with_echo_refused:
  "\<not> echoed e command \<Longrightarrow> snd (run_with_echo e command w) = w \<and> isl (fst (run_with_echo e command w))"
  by (cases command) (simp_all add: run_with_echo_def echoed_def rich_print_def)

lemma events_run_with_echo:
  "events (snd (run_with_echo e command w)) = events w @ (if echoed e command then [Run command] else [])"
  using run_with_echo_echoed [of e command w] run_with_echo_refused [of e command w] by simp

lemma get_elf_headers_echoed:
  "echoed e (readelf_command P p) \<Longrightarrow>
   get_elf_headers e P p w =
     ((case fst (subprocess_run e (readelf_command P p) (files w)) of
         Inl exc \<Rightarrow> Inl exc | Inr out \<Rightarrow> parse_elf_headers out),
      w\<lparr>files := snd (subprocess_run e (readelf_command P p) (files w)),
        events := events w @ [Run (readelf_command P p)]\<rparr>)"
  by (simp add: get_elf_headers_def run_with_echo_echoed split: sum.splits)

lemma get_elf_headers_refused:
  "\<not> echoed e (readelf_command P p) \<Longrightarrow>
     snd (get_elf_headers e P p w) = w \<and> isl (fst (get_elf_headers e P p w))"
  using run_with_echo_refused [of e "readelf_command P p" w]
  by (cases "run_with_echo e (readelf_command P p) w")
     (auto simp add: get_elf_headers_def split: sum.splits)

lemma header_field_Inr:
  "header_field out k = Inr v \<longleftrightarrow> (\<exists>headers. parse_elf_headers out = Inr headers \<and> headers k = Some v)"
  by (auto simp add: header_field_def dict_item_def split: sum.splits option.splits)

lemma events_get_elf_headers:
  "events (snd (get_elf_headers e P p w)) =
     events w @ (if echoed e (readelf_command P p) then [Run (readelf_command P p)] else [])"
  using get_elf_headers_echoed [of e P p w] get_elf_headers_refused [of e P p w] by simp

lemma tmp_made_get_elf_headers: "tmp_made (snd (get_elf_headers e P p w)) = tmp_made w"
  using get_elf_headers_echoed [of e P p w] get_elf_headers_refused [of e P p w]
  by (cases "echoed e (readelf_command P p)") simp_all

text \<open>The temporary directory of a \<^verbatim>\<open>with\<close> block and the world its body starts in.\<close>

lemma with_TemporaryDirectory_eq:
  "with_TemporaryDirectory e sfx body w =
     (fst (body (fst (mkdtemp e sfx w)) (snd (mkdtemp e sfx w))),
      rmtree (fst (mkdtemp e sfx w)) (snd (body (fst (mkdtemp e sfx w)) (snd (mkdtemp e sfx w)))))"
  by (simp add: with_TemporaryDirectory_def split_beta Let_def)

lemma files_with_TemporaryDirectory:
  "is_inside (mkdtemp_name e (tmp_made w) @ sfx) p \<Longrightarrow>
     files (snd (with_TemporaryDirectory e sfx body w)) p = None"
  by (simp add: with_TemporaryDirectory_eq rmtree_def mkdtemp_def Let_def)

lemma is_inside_child: "is_inside d (path_child d name)"
  by (simp add: is_inside_def path_child_def)

lemma is_inside_self: "is_inside d d"
  by (simp add: is_inside_def)

lemma events_rmtree [simp]: "events (rmtree d w) = events w"
  by (simp add: rmtree_def)

lemma tmp_made_rmtree [simp]: "tmp_made (rmtree d w) = tmp_made w"
  by (simp add: rmtree_def)

lemma read_from_elf_body:
  "read_from_elf e P p w =
     (let tdir = mkdtemp_name e (tmp_made w);
          output_path = path_child tdir ''out.o'';
          w1 = snd (mkdtemp e [] w);
          r = run_with_echo e (objcopy_command P p output_path) w1
      in ((case fst r of Inl exc \<Rightarrow> Inl exc | Inr out \<Rightarrow> read_bytes (snd r) output_path),
          rmtree tdir (snd r)))"
  by (simp add: read_from_elf_def with_TemporaryDirectory_eq mkdtemp_def Let_def
      split: sum.splits prod.splits)

lemma read_from_elf_echoed:
  "echoed e (objcopy_command P p (path_child (mkdtemp_name e (tmp_made w)) ''out.o'')) \<Longrightarrow>
   read_from_elf e P p w =
     (let tdir = mkdtemp_name e (tmp_made w);
          output_path = path_child tdir ''out.o'';
          w1 = snd (mkdtemp e [] w);
          r = subprocess_run e (objcopy_command P p output_path) (files w1);
          w2 = w1\<lparr>files := snd r, events := events w @ [Run (objcopy_command P p output_path)]\<rparr>
      in ((case fst r of Inl exc \<Rightarrow> Inl exc | Inr out \<Rightarrow> read_bytes w2 output_path),
          rmtree tdir w2))"
  by (simp add: read_from_elf_body run_with_echo_echoed mkdtemp_def Let_def split: sum.splits)

lemma events_read_from_elf:
  "events (snd (read_from_elf e P p w)) =
     events w
     @ (if echoed e (objcopy_command P p (path_child (mkdtemp_name e (tmp_made w)) ''out.o''))
        then [Run (objcopy_command P p (path_child (mkdtemp_name e (tmp_made w)) ''out.o''))]
        else [])"
  by (simp add: read_from_elf_body Let_def events_run_with_echo mkdtemp_def)

lemma tmp_made_run_with_echo: "tmp_made (snd (run_with_echo e command w)) = tmp_made w"
  using run_with_echo_echoed [of e command w] run_with_echo_refused [of e command w]
  by (cases "echoed e command") simp_all

lemma tmp_made_read_from_elf: "tmp_made (snd (read_from_elf e P p w)) = Suc (tmp_made w)"
  by (simp add: read_from_elf_body Let_def tmp_made_run_with_echo mkdtemp_def)

lemma read_from_elf_Inr:
  assumes "fst (read_from_elf e P p w) = Inr content"
  shows "echoed e (objcopy_command P p (path_child (mkdtemp_name e (tmp_made w)) ''out.o''))"
proof (rule ccontr)
  assume "\<not> echoed e (objcopy_command P p (path_child (mkdtemp_name e (tmp_made w)) ''out.o''))"
  from run_with_echo_refused [OF this, of "snd (mkdtemp e [] w)"] assms show False
    by (auto simp add: read_from_elf_body Let_def split: sum.splits)
qed

lemma read_from_elf_ok:
  assumes "echoed e (objcopy_command P p (path_child (mkdtemp_name e (tmp_made w)) ''out.o''))"
      and "fst (subprocess_run e
              (objcopy_command P p (path_child (mkdtemp_name e (tmp_made w)) ''out.o''))
              ((files w)(mkdtemp_name e (tmp_made w) \<mapsto> Directory))) = Inr out"
      and "snd (subprocess_run e
              (objcopy_command P p (path_child (mkdtemp_name e (tmp_made w)) ''out.o''))
              ((files w)(mkdtemp_name e (tmp_made w) \<mapsto> Directory)))
             (path_child (mkdtemp_name e (tmp_made w)) ''out.o'') = Some (File content)"
  shows "fst (read_from_elf e P p w) = Inr content"
  using assms(2,3) by (simp add: read_from_elf_echoed [OF assms(1)] Let_def mkdtemp_def read_bytes_def)

lemma files_read_from_elf:
  "files (snd (read_from_elf e P p w)) (path_child (mkdtemp_name e (tmp_made w)) ''out.o'') = None"
  unfolding read_from_elf_def
  using files_with_TemporaryDirectory [of e w "[]" "path_child (mkdtemp_name e (tmp_made w)) ''out.o''"]
  by (simp add: is_inside_child)

text \<open>Logs of inspections.\<close>

lemma inspections_simps [simp]:
  "inspections P []"
  "inspections P (evs @ evs') \<longleftrightarrow> inspections P evs \<and> inspections P evs'"
  "inspections P [Run (readelf_command P p)]"
  "inspections P [Run (objcopy_command P p output_path)]"
  by (simp_all add: inspections_def readelf_command_def objcopy_command_def)

lemma inspections_if [simp]: "inspections P (if c then evs else []) \<longleftrightarrow> (c \<longrightarrow> inspections P evs)"
  by simp

lemma readelf_not_ndstool: "P @ ''readelf'' \<noteq> ''ndstool''"
proof
  assume "P @ ''readelf'' = ''ndstool''"
  then have "last (P @ ''readelf'') = last ''ndstool''" by (rule arg_cong)
  then show False by simp
qed

lemma objcopy_not_ndstool: "P @ ''objcopy'' \<noteq> ''ndstool''"
proof
  assume "P @ ''objcopy'' = ''ndstool''"
  then have "last (P @ ''objcopy'') = last ''ndstool''" by (rule arg_cong)
  then show False by simp
qed

lemma readelf_not_objcopy: "P @ ''readelf'' \<noteq> P @ ''objcopy''"
  by simp

lemma inspections_quiet:
  assumes "inspections P evs"
  shows "no_writes evs" and "\<not> invokes ''ndstool'' evs" 
proof -
  from assms have all: "\<forall>ev \<in> set evs. case ev of
      Run command \<Rightarrow> take 1 command = [P @ ''readelf''] \<or> take 1 command = [P @ ''objcopy'']
    | WriteBytes path content \<Rightarrow> False"
    by (simp add: inspections_def list_all_iff)
  show "no_writes evs"
    unfolding no_writes_def using all by fastforce
  show "\<not> invokes ''ndstool'' evs"
    unfolding invokes_def using all readelf_not_ndstool [of P] objcopy_not_ndstool [of P]
    by fastforce
qed

subsection \<open>The ARM9 step\<close>

lemma events_read_arm9_shape:
  "\<exists>pre. events (snd (read_arm9 e P p w)) = events w @ pre \<and> inspections P pre"
proof -
  obtain r1 w1 where g: "get_elf_headers e P p w = (r1, w1)" by (cases "get_elf_headers e P p w")
  obtain r2 w2 where f: "read_from_elf e P p w1 = (r2, w2)" by (cases "read_from_elf e P p w1")
  from events_get_elf_headers [of e P p w] g
  obtain pre1 where ev1: "events w1 = events w @ pre1" and i1: "inspections P pre1"
    by (cases "echoed e (readelf_command P p)") auto
  from events_read_from_elf [of e P p w1] f
  obtain pre2 where ev2: "events w2 = events w1 @ pre2" and i2: "inspections P pre2"
    by (cases "echoed e (objcopy_command P p (path_child (mkdtemp_name e (tmp_made w1)) ''out.o''))")
       auto
  have "events (snd (read_arm9 e P p w)) = events w @ []
      \<or> events (snd (read_arm9 e P p w)) = events w @ pre1
      \<or> events (snd (read_arm9 e P p w)) = events w @ (pre1 @ pre2)"
    unfolding read_arm9_def
    by (simp add: g f ev1 ev2 split: sum.splits option.splits)
  with i1 i2 show ?thesis
    by (metis inspections_simps(1,2))
qed

lemma read_arm9_Inr:
  assumes "fst (read_arm9 e P p w) = Inr (arm9_ep, arm9_data)"
  shows "rich_markup_ok e ''[cyan]reading ARM9 binary...[/cyan]''"
    and "echoed e (readelf_command P p)"
    and "\<exists>out v. fst (subprocess_run e (readelf_command P p) (files w)) = Inr out
           \<and> header_field out ''machine'' = Inr ''ARM''
           \<and> header_field out ''entry_point_address'' = Inr v
           \<and> arm9_entry_point v = Inr arm9_ep"
    and "fst (read_from_elf e P p (snd (get_elf_headers e P p w))) = Inr arm9_data"
    and "snd (read_arm9 e P p w) = snd (read_from_elf e P p (snd (get_elf_headers e P p w)))"
    and "report_image e ''ARM9'' arm9_ep arm9_data = None"
proof -
  obtain r1 w1 where g: "get_elf_headers e P p w = (r1, w1)" by (cases "get_elf_headers e P p w")
  obtain r2 w2 where f: "read_from_elf e P p w1 = (r2, w2)" by (cases "read_from_elf e P p w1")
  have w1: "snd (get_elf_headers e P p w) = w1" by (simp add: g)
  show p1: "rich_markup_ok e ''[cyan]reading ARM9 binary...[/cyan]''"
    using assms by (auto simp add: read_arm9_def split: option.splits)
  from assms p1 obtain headers v where r1: "r1 = Inr headers" and m: "headers ''machine'' = Some ''ARM''"
      and v: "headers ''entry_point_address'' = Some v" and ep: "arm9_entry_point v = Inr arm9_ep"
      and r2: "r2 = Inr arm9_data" and rep: "report_image e ''ARM9'' arm9_ep arm9_data = None"
    by (auto simp add: read_arm9_def g f dict_item_def split: sum.splits option.splits if_splits)
  show ec: "echoed e (readelf_command P p)"
  proof (rule ccontr)
    assume "\<not> echoed e (readelf_command P p)"
    from get_elf_headers_refused [OF this, of w] g r1 show False by simp
  qed
  from g r1 get_elf_headers_echoed [OF ec, of w]
  obtain out where out: "fst (subprocess_run e (readelf_command P p) (files w)) = Inr out"
      and parse: "parse_elf_headers out = Inr headers"
    by (auto split: sum.splits)
  from out parse m v ep
  show "\<exists>out v. fst (subprocess_run e (readelf_command P p) (files w)) = Inr out
           \<and> header_field out ''machine'' = Inr ''ARM''
           \<and> header_field out ''entry_point_address'' = Inr v
           \<and> arm9_entry_point v = Inr arm9_ep"
    by (auto simp add: header_field_Inr)
  from f r2 show "fst (read_from_elf e P p (snd (get_elf_headers e P p w))) = Inr arm9_data"
    by (simp add: w1)
  show "report_image e ''ARM9'' arm9_ep arm9_data = None" by (rule rep)
  show "snd (read_arm9 e P p w) = snd (read_from_elf e P p (snd (get_elf_headers e P p w)))"
    using p1 by (simp add: read_arm9_def g f r1 r2 dict_item_def m v ep rep w1)
qed

lemma read_arm9_ok:
  assumes p1: "rich_markup_ok e ''[cyan]reading ARM9 binary...[/cyan]''"
      and ec: "echoed e (readelf_command P p)"
      and out: "fst (subprocess_run e (readelf_command P p) (files w)) = Inr out"
      and machine: "header_field out ''machine'' = Inr ''ARM''"
      and entry: "header_field out ''entry_point_address'' = Inr v"
      and ep: "arm9_entry_point v = Inr arm9_ep"
      and data: "fst (read_from_elf e P p (snd (get_elf_headers e P p w))) = Inr arm9_data"
      and rep: "report_image e ''ARM9'' arm9_ep arm9_data = None"
  shows "read_arm9 e P p w =
           (Inr (arm9_ep, arm9_data), snd (read_from_elf e P p (snd (get_elf_headers e P p w))))"
proof -
  from machine entry obtain headers where h: "parse_elf_headers out = Inr headers"
      "headers ''machine'' = Some ''ARM''" "headers ''entry_point_address'' = Some v"
    by (auto simp add: header_field_Inr)
  obtain r1 w1 where g: "get_elf_headers e P p w = (r1, w1)" by (cases "get_elf_headers e P p w")
  obtain r2 w2 where f: "read_from_elf e P p w1 = (r2, w2)" by (cases "read_from_elf e P p w1")
  have w1: "snd (get_elf_headers e P p w) = w1" by (simp add: g)
  have r1: "r1 = Inr headers"
    using out h(1) g by (simp add: get_elf_headers_echoed [OF ec])
  have r2: "r2 = Inr arm9_data"
    using data f by (simp add: w1)
  show ?thesis
    using p1 by (simp add: read_arm9_def g f r1 r2 dict_item_def h(2,3) ep rep w1)
qed

lemma read_arm9_not_arm:
  assumes p1: "rich_markup_ok e ''[cyan]reading ARM9 binary...[/cyan]''"
      and ec: "echoed e (readelf_command P p)"
      and out: "fst (subprocess_run e (readelf_command P p) (files w)) = Inr out"
      and machine: "header_field out ''machine'' = Inr m" and m: "m \<noteq> ''ARM''"
  shows "read_arm9 e P p w =
           (Inl (if rich_markup_ok e (not_arm_text m) then SystemExit 1 else MarkupError),
            snd (get_elf_headers e P p w))"
proof -
  from machine obtain headers where h: "parse_elf_headers out = Inr headers" "headers ''machine'' = Some m"
    by (auto simp add: header_field_Inr)
  obtain r1 w1 where g: "get_elf_headers e P p w = (r1, w1)" by (cases "get_elf_headers e P p w")
  have w1: "snd (get_elf_headers e P p w) = w1" by (simp add: g)
  have r1: "r1 = Inr headers"
    using out h(1) g by (simp add: get_elf_headers_echoed [OF ec])
  show ?thesis
    using p1 by (simp add: read_arm9_def g r1 dict_item_def h(2) m w1 rich_print_def)
qed

lemma read_arm9_Inr_world:
  assumes "fst (read_arm9 e P p w) = Inr r"
  shows "events (snd (read_arm9 e P p w)) =
           events w @ [Run (readelf_command P p),
                       Run (objcopy_command P p (path_child (mkdtemp_name e (tmp_made w)) ''out.o''))]"
    and "tmp_made (snd (read_arm9 e P p w)) = Suc (tmp_made w)"
proof -
  obtain arm9_ep arm9_data where r: "fst (read_arm9 e P p w) = Inr (arm9_ep, arm9_data)"
    using assms by (cases r) simp
  note inv = read_arm9_Inr [OF r]
  from read_from_elf_Inr [OF inv(4)]
  have ec2: "echoed e (objcopy_command P p (path_child (mkdtemp_name e (tmp_made w)) ''out.o''))"
    by (simp add: tmp_made_get_elf_headers)
  show "events (snd (read_arm9 e P p w)) =
           events w @ [Run (readelf_command P p),
                       Run (objcopy_command P p (path_child (mkdtemp_name e (tmp_made w)) ''out.o''))]"
    using inv(2) ec2
    by (simp add: inv(5) events_read_from_elf events_get_elf_headers tmp_made_get_elf_headers)
  show "tmp_made (snd (read_arm9 e P p w)) = Suc (tmp_made w)"
    by (simp add: inv(5) tmp_made_read_from_elf tmp_made_get_elf_headers)
qed

subsection \<open>The ARM7 step\<close>

lemma load_arm7_default:
  "load_arm7 e P None w = (Inr (0x2380000, [0xfe, 0xff, 0xff, 0xea]), w)"
  by (simp add: load_arm7_def)

lemma read_arm7_default:
  "read_arm7 e P None w =
     (if report_image e ''ARM7'' 0x2380000 [0xfe, 0xff, 0xff, 0xea] = None
      then Inr (0x2380000, [0xfe, 0xff, 0xff, 0xea])
      else Inl MarkupError, w)"
  by (auto simp add: read_arm7_def load_arm7_default report_image_def split: option.splits)

lemma snd_read_arm7: "snd (read_arm7 e P arm7_image w) = snd (load_arm7 e P arm7_image w)"
  by (cases "load_arm7 e P arm7_image w")
     (auto simp add: read_arm7_def split: sum.splits option.splits)

lemma events_load_arm7_shape:
  "\<exists>pre. events (snd (load_arm7 e P arm7_image w)) = events w @ pre \<and> inspections P pre"
proof (cases arm7_image)
  case None
  then have "events (snd (load_arm7 e P arm7_image w)) = events w @ []"
    by (simp add: load_arm7_default)
  then show ?thesis by (metis inspections_simps(1))
next
  case (Some p)
  show ?thesis
  proof (cases "path_suffix p = ''.nds''")
    case True
    then have "events (snd (load_arm7 e P arm7_image w)) = events w @ []"
      by (simp add: load_arm7_def Some split: sum.splits prod.splits option.splits)
    then show ?thesis by (metis inspections_simps(1))
  next
    case False
    obtain r1 w1 where g: "get_elf_headers e P p w = (r1, w1)" by (cases "get_elf_headers e P p w")
    obtain r2 w2 where f: "read_from_elf e P p w1 = (r2, w2)" by (cases "read_from_elf e P p w1")
    from events_get_elf_headers [of e P p w] g
    obtain pre1 where ev1: "events w1 = events w @ pre1" and i1: "inspections P pre1"
      by (cases "echoed e (readelf_command P p)") auto
    from events_read_from_elf [of e P p w1] f
    obtain pre2 where ev2: "events w2 = events w1 @ pre2" and i2: "inspections P pre2"
      by (cases "echoed e (objcopy_command P p (path_child (mkdtemp_name e (tmp_made w1)) ''out.o''))")
         auto
    have "events (snd (load_arm7 e P arm7_image w)) = events w @ []
        \<or> events (snd (load_arm7 e P arm7_image w)) = events w @ pre1
        \<or> events (snd (load_arm7 e P arm7_image w)) = events w @ (pre1 @ pre2)"
      unfolding load_arm7_def Some
      by (simp add: False g f ev1 ev2 split: sum.splits option.splits)
    with i1 i2 show ?thesis
      by (metis inspections_simps(1,2))
  qed
qed

lemma events_read_arm7_shape:
  "\<exists>pre. events (snd (read_arm7 e P arm7_image w)) = events w @ pre \<and> inspections P pre"
  using events_load_arm7_shape [of e P arm7_image w] by (simp add: snd_read_arm7)

lemma load_arm7_elf:
  assumes sfx: "path_suffix p \<noteq> ''.nds''"
      and p1: "rich_markup_ok e ''[cyan]reading ARM7 binary...''"
      and ec: "echoed e (readelf_command P p)"
      and out: "fst (subprocess_run e (readelf_command P p) (files w)) = Inr out"
      and field: "header_field out ''entry_point_address'' = Inr v"
  shows "load_arm7 e P (Some p) w =
     (case arm7_entry_point v of
        Inl exc \<Rightarrow> (Inl exc, snd (get_elf_headers e P p w))
      | Inr arm7_ep \<Rightarrow>
          ((case fst (read_from_elf e P p (snd (get_elf_headers e P p w))) of
              Inl exc \<Rightarrow> Inl exc | Inr arm7_data \<Rightarrow> Inr (arm7_ep, arm7_data)),
           snd (read_from_elf e P p (snd (get_elf_headers e P p w)))))"
proof -
  from field obtain headers where h: "parse_elf_headers out = Inr headers"
      "headers ''entry_point_address'' = Some v"
    by (auto simp add: header_field_Inr)
  obtain r1 w1 where g: "get_elf_headers e P p w = (r1, w1)" by (cases "get_elf_headers e P p w")
  obtain r2 w2 where f: "read_from_elf e P p w1 = (r2, w2)" by (cases "read_from_elf e P p w1")
  have w1: "snd (get_elf_headers e P p w) = w1" by (simp add: g)
  have r1: "r1 = Inr headers"
    using out h(1) g by (simp add: get_elf_headers_echoed [OF ec])
  show ?thesis
    using p1 by (simp add: load_arm7_def sfx g f r1 dict_item_def h(2) w1 split: sum.splits)
qed

subsection \<open>The packer step\<close>

lemma saved_blobs_differ: "saved_blob e w ''arm9.tmp.bin'' \<noteq> saved_blob e w ''arm7.tmp.bin''"
  by (simp add: saved_blob_def path_child_def)

lemma saved_blob_not_dir: "saved_blob e w ''arm9.tmp.bin'' \<noteq> mkdtemp_name e (tmp_made w) @ ''ndspacker''"
  "saved_blob e w ''arm7.tmp.bin'' \<noteq> mkdtemp_name e (tmp_made w) @ ''ndspacker''"
  by (simp_all add: saved_blob_def path_child_def)

lemma pack_result:
  "snd (case r of (Inl exc, w4) \<Rightarrow> (Inl exc, w4) | (Inr out, w4) \<Rightarrow> (Inr (), w4)) = snd r"
  "fst (case r of (Inl exc, w4) \<Rightarrow> (Inl exc, w4) | (Inr out, w4) \<Rightarrow> (Inr (), w4))
     = (case fst r of Inl exc \<Rightarrow> Inl exc | Inr out \<Rightarrow> Inr ())"
  by (cases r; auto split: sum.splits)+

lemma events_pack:
  "events (snd (pack e st arm9_ep arm9_data arm7_ep arm7_data w)) =
     events w
     @ [WriteBytes (saved_blob e w ''arm9.tmp.bin'') arm9_data,
        WriteBytes (saved_blob e w ''arm7.tmp.bin'') arm7_data]
     @ (case py_str_int arm9_ep of
          Inl exc \<Rightarrow> []
        | Inr e9 \<Rightarrow>
            (case py_str_int arm7_ep of
               Inl exc \<Rightarrow> []
             | Inr e7 \<Rightarrow>
                 if echoed e (ndstool_command (saved_blob e w ''arm9.tmp.bin'')
                        (saved_blob e w ''arm7.tmp.bin'') e9 e7 (packer_metadata st))
                 then [Run (ndstool_command (saved_blob e w ''arm9.tmp.bin'')
                        (saved_blob e w ''arm7.tmp.bin'') e9 e7 (packer_metadata st))]
                 else []))"
  by (simp add: pack_def with_TemporaryDirectory_eq mkdtemp_def write_bytes_def saved_blob_def
      Let_def pack_result events_run_with_echo split: sum.splits)

lemma pack_started:
  assumes e9: "py_str_int arm9_ep = Inr e9" and e7: "py_str_int arm7_ep = Inr e7"
      and ec: "echoed e (ndstool_command (saved_blob e w ''arm9.tmp.bin'')
                  (saved_blob e w ''arm7.tmp.bin'') e9 e7 (packer_metadata st))"
  shows "\<exists>fs. fs (saved_blob e w ''arm9.tmp.bin'') = Some (File arm9_data)
       \<and> fs (saved_blob e w ''arm7.tmp.bin'') = Some (File arm7_data)
       \<and> fst (pack e st arm9_ep arm9_data arm7_ep arm7_data w) =
           (case fst (subprocess_run e (ndstool_command (saved_blob e w ''arm9.tmp.bin'')
                  (saved_blob e w ''arm7.tmp.bin'') e9 e7 (packer_metadata st)) fs) of
              Inl exc \<Rightarrow> Inl exc | Inr out \<Rightarrow> Inr ())
       \<and> files (snd (pack e st arm9_ep arm9_data arm7_ep arm7_data w)) =
           (\<lambda>p. if is_inside (mkdtemp_name e (tmp_made w) @ ''ndspacker'') p then None
                else snd (subprocess_run e (ndstool_command (saved_blob e w ''arm9.tmp.bin'')
                  (saved_blob e w ''arm7.tmp.bin'') e9 e7 (packer_metadata st)) fs) p)"
proof -
  let ?d = "mkdtemp_name e (tmp_made w) @ ''ndspacker''"
  let ?s9 = "saved_blob e w ''arm9.tmp.bin''" and ?s7 = "saved_blob e w ''arm7.tmp.bin''"
  let ?fs = "(files w)(?d \<mapsto> Directory, ?s9 \<mapsto> File arm9_data, ?s7 \<mapsto> File arm7_data)"
  have "?fs ?s9 = Some (File arm9_data)" and "?fs ?s7 = Some (File arm7_data)"
    using saved_blobs_differ [of e w] by simp_all
  moreover have "fst (pack e st arm9_ep arm9_data arm7_ep arm7_data w) =
           (case fst (subprocess_run e (ndstool_command ?s9 ?s7 e9 e7 (packer_metadata st)) ?fs) of
              Inl exc \<Rightarrow> Inl exc | Inr out \<Rightarrow> Inr ())"
    by (simp add: pack_def with_TemporaryDirectory_eq mkdtemp_def write_bytes_def saved_blob_def
        Let_def e9 e7 pack_result run_with_echo_echoed [OF ec, unfolded saved_blob_def])
  moreover have "files (snd (pack e st arm9_ep arm9_data arm7_ep arm7_data w)) =
           (\<lambda>p. if is_inside ?d p then None
                else snd (subprocess_run e (ndstool_command ?s9 ?s7 e9 e7 (packer_metadata st)) ?fs) p)"
    by (rule ext)
       (simp add: pack_def with_TemporaryDirectory_eq mkdtemp_def write_bytes_def saved_blob_def
        Let_def e9 e7 pack_result run_with_echo_echoed [OF ec, unfolded saved_blob_def] rmtree_def)
  ultimately show ?thesis by blast
qed

lemma files_pack:
  "files (snd (pack e st arm9_ep arm9_data arm7_ep arm7_data w)) (saved_blob e w name) = None"
  unfolding pack_def Let_def saved_blob_def
  by (rule files_with_TemporaryDirectory) (rule is_inside_child)

subsection \<open>The whole run\<close>

lemma main_default_arm7:
  assumes paths: "main_paths e w = Inr (arm9_image, None)"
      and st: "load_settings e w = Inr st"
      and arm9: "fst (read_arm9 e P arm9_image w) = Inr (arm9_ep, arm9_data)"
  shows "main e P w =
           (if report_image e ''ARM7'' 0x2380000 [0xfe, 0xff, 0xff, 0xea] = None
            then pack e st arm9_ep arm9_data 0x2380000 [0xfe, 0xff, 0xff, 0xea]
                   (snd (read_arm9 e P arm9_image w))
            else (Inl MarkupError, snd (read_arm9 e P arm9_image w)))"
proof -
  obtain r9 w1 where a9: "read_arm9 e P arm9_image w = (r9, w1)"
    by (cases "read_arm9 e P arm9_image w")
  with arm9 have r9: "r9 = Inr (arm9_ep, arm9_data)" and w1: "snd (read_arm9 e P arm9_image w) = w1"
    by simp_all
  show ?thesis
    by (simp add: main_def paths st a9 r9 w1 read_arm7_default)
qed

text \<open>
  Claim C6. When the run gets as far as the ARM9 header dump (the command line and the
  settings raised nothing, the messages before the dump were printed, \<^verbatim>\<open>readelf\<close> printed
  \<open>out\<close>) and the dump's machine value is not \<^verbatim>\<open>ARM\<close>, \<^const>\<open>main\<close> ends with \<^verbatim>\<open>sys.exit(1)\<close>, or
  with the MarkupError of \<^verbatim>\<open>rich\<close> when the message about the machine value is refused; the
  exit status is 1 either way, and the only command the run has executed is that
  \<^verbatim>\<open>readelf\<close>: neither \<^verbatim>\<open>objcopy\<close> nor \<^verbatim>\<open>ndstool\<close> is invoked.
\<close>

theorem not_arm_exits:
  assumes paths: "main_paths e w = Inr (arm9_image, arm7_image)"
      and settings: "\<not> isl (load_settings e w)"
      and reading: "rich_markup_ok e ''[cyan]reading ARM9 binary...[/cyan]''"
      and echo: "echoed e (readelf_command P arm9_image)"
      and out: "fst (subprocess_run e (readelf_command P arm9_image) (files w)) = Inr out"
      and machine: "header_field out ''machine'' = Inr m"
      and m: "m \<noteq> ''ARM''"
  shows "exit_code (fst (main e P w)) = 1
       \<and> fst (main e P w) =
           Inl (if rich_markup_ok e (not_arm_text m) then SystemExit 1 else MarkupError)
       \<and> (\<exists>new. events (snd (main e P w)) = events w @ new
             \<and> new = [Run (readelf_command P arm9_image)]
             \<and> \<not> invokes (P @ ''objcopy'') new \<and> \<not> invokes ''ndstool'' new)"
proof -
  from settings obtain st where st: "load_settings e w = Inr st"
    by (cases "load_settings e w") auto
  obtain r9 w1 where a9: "read_arm9 e P arm9_image w = (r9, w1)"
    by (cases "read_arm9 e P arm9_image w")
  from read_arm9_not_arm [OF reading echo out machine m] a9
  have r9: "r9 = Inl (if rich_markup_ok e (not_arm_text m) then SystemExit 1 else MarkupError)"
    and w1: "w1 = snd (get_elf_headers e P arm9_image w)"
    by simp_all
  have m9: "main e P w =
      (Inl (if rich_markup_ok e (not_arm_text m) then SystemExit 1 else MarkupError), w1)"
    by (simp add: main_def paths st a9 r9)
  have "\<not> invokes (P @ ''objcopy'') [Run (readelf_command P arm9_image)]"
    and "\<not> invokes ''ndstool'' [Run (readelf_command P arm9_image)]"
    using readelf_not_ndstool [of P] by (simp_all add: invokes_def readelf_command_def)
  then show ?thesis
    using echo by (simp add: m9 w1 exit_code_def events_get_elf_headers)
qed

section \<open>The packer invocation\<close>

lemma isl_case_unit:
  "isl (case x of Inl exc \<Rightarrow> Inl exc | Inr out \<Rightarrow> Inr ()) = isl x"
  by (cases x) simp_all

lemma pack_not_started:
  assumes e9: "py_str_int arm9_ep = Inr e9" and e7: "py_str_int arm7_ep = Inr e7"
      and ec: "\<not> echoed e (ndstool_command (saved_blob e w ''arm9.tmp.bin'')
                  (saved_blob e w ''arm7.tmp.bin'') e9 e7 (packer_metadata st))"
  shows "isl (fst (pack e st arm9_ep arm9_data arm7_ep arm7_data w))"
proof -
  have r: "isl (fst (run_with_echo e (ndstool_command (saved_blob e w ''arm9.tmp.bin'')
                  (saved_blob e w ''arm7.tmp.bin'') e9 e7 (packer_metadata st)) w'))" for w'
    using run_with_echo_refused [OF ec] by simp
  show ?thesis
    using r [unfolded saved_blob_def]
    by (simp add: pack_def with_TemporaryDirectory_eq Let_def e9 e7 pack_result isl_case_unit
        mkdtemp_def write_bytes_def)
qed

lemma str_default_arm7_ep: "py_str_int 0x2380000 = Inr ''37224448''"
  by (simp add: py_str_int_def str_nat.simps digit_char_def)

lemma main_paths_no_arm7:
  assumes "length (sys_argv e) \<le> 2" and "main_paths e w = Inr (arm9_image, arm7_image)"
  shows "arm7_image = None"
proof (cases "sys_argv e")
  case Nil
  with assms(2) show ?thesis by (simp add: main_paths_def)
next
  case (Cons prog args)
  show ?thesis
  proof (cases args)
    case Nil
    with Cons assms(2) show ?thesis by (simp add: main_paths_def)
  next
    case (Cons a1 rest)
    with \<open>sys_argv e = prog # args\<close> assms(1) have "rest = []" by simp
    with Cons \<open>sys_argv e = prog # args\<close> assms(2) show ?thesis
      by (auto simp add: main_paths_def Let_def split: if_splits option.splits)
  qed
qed

lemma not_invokes_Nil: "\<not> invokes tool_name []"
  by (simp add: invokes_def)

lemma take_1_ndstool_command: "take 1 (ndstool_command s9 s7 e9 e7 meta) = [''ndstool'']"
  by (cases meta) (simp add: ndstool_command_def)

lemma quiet_log:
  assumes "events (snd result) = events w @ pre" and "\<not> invokes ''ndstool'' pre"
      and "isl (fst result)" and "\<not> packer_reached e P w"
  shows "\<exists>new. events (snd result) = events w @ new
     \<and> (\<forall>command. Run command \<in> set new \<and> take 1 command = [''ndstool''] \<longrightarrow>
            default_arm7_call e result new command)
     \<and> (invokes ''ndstool'' new \<longleftrightarrow> packer_reached e P w)
     \<and> (fst result = Inr () \<longrightarrow> invokes ''ndstool'' new)"
proof -
  from assms(2) have "\<forall>command. Run command \<in> set pre \<and> take 1 command = [''ndstool''] \<longrightarrow>
      default_arm7_call e result pre command"
    unfolding invokes_def by blast
  moreover from assms(3) have "fst result = Inr () \<longrightarrow> invokes ''ndstool'' pre"
    by auto
  moreover from assms(2,4) have "invokes ''ndstool'' pre \<longleftrightarrow> packer_reached e P w"
    by simp
  ultimately show ?thesis using assms(1) by blast
qed

text \<open>
  Claim C3. When the command line has no ARM7 path, every \<^verbatim>\<open>ndstool\<close> command of the run
  is built and started with the default ARM7 image (\<^const>\<open>default_arm7_call\<close>): it passes
  the text of 0x02380000 (\<^verbatim>\<open>37224448\<close>) after \<^verbatim>\<open>-e7\<close>; it is handed to \<^verbatim>\<open>subprocess.run\<close> on a
  file system in which the file after \<^verbatim>\<open>-7\<close> holds exactly the bytes FE FF FF EA; and the
  run ends as that packer run ends. The packer is invoked exactly when every step before
  it succeeds (\<^const>\<open>packer_reached\<close>), and a run that returns normally has invoked it.
\<close>

theorem default_arm7_passed_to_packer:
  assumes no_arm7: "length (sys_argv e) \<le> 2"
  shows "\<exists>new. events (snd (main e P w)) = events w @ new
     \<and> (\<forall>command. Run command \<in> set new \<and> take 1 command = [''ndstool''] \<longrightarrow>
            default_arm7_call e (main e P w) new command)
     \<and> (invokes ''ndstool'' new \<longleftrightarrow> packer_reached e P w)
     \<and> (fst (main e P w) = Inr () \<longrightarrow> invokes ''ndstool'' new)"
proof (cases "main_paths e w")
  case (Inl exc)
  then have "events (snd (main e P w)) = events w @ []" "isl (fst (main e P w))"
    "\<not> packer_reached e P w"
    by (simp_all add: main_def packer_reached_def)
  then show ?thesis using not_invokes_Nil by (intro quiet_log) auto
next
  case (Inr images)
  obtain arm9_image arm7_image where images: "images = (arm9_image, arm7_image)" by (cases images)
  with Inr no_arm7 have paths: "main_paths e w = Inr (arm9_image, None)"
    using main_paths_no_arm7 by blast
  show ?thesis
  proof (cases "load_settings e w")
    case (Inl exc)
    then have "events (snd (main e P w)) = events w @ []" "isl (fst (main e P w))"
      "\<not> packer_reached e P w"
      by (simp_all add: main_def paths packer_reached_def)
    then show ?thesis using not_invokes_Nil by (intro quiet_log) auto
  next
    case st: (Inr st)
    let ?w1 = "snd (read_arm9 e P arm9_image w)"
    from events_read_arm9_shape [of e P arm9_image w]
    obtain pre where pre: "events ?w1 = events w @ pre" and insp: "inspections P pre"
      by blast
    note quiet = inspections_quiet(2) [OF insp]
    show ?thesis
    proof (cases "fst (read_arm9 e P arm9_image w)")
      case (Inl exc)
      obtain r9 w1 where a9: "read_arm9 e P arm9_image w = (r9, w1)"
        by (cases "read_arm9 e P arm9_image w")
      with Inl have m: "main e P w = (Inl exc, ?w1)"
        by (simp add: main_def paths st)
      have "events (snd (main e P w)) = events w @ pre" "isl (fst (main e P w))"
        by (simp_all add: m pre)
      moreover from Inl have "\<not> packer_reached e P w"
        by (simp add: packer_reached_def paths)
      ultimately show ?thesis using quiet by (intro quiet_log) auto
    next
      case (Inr r9)
      obtain arm9_ep arm9_data where r9: "r9 = (arm9_ep, arm9_data)" by (cases r9)
      with Inr have arm9: "fst (read_arm9 e P arm9_image w) = Inr (arm9_ep, arm9_data)" by simp
      note m = main_default_arm7 [OF paths st arm9]
      let ?s9 = "saved_blob e ?w1 ''arm9.tmp.bin''" and ?s7 = "saved_blob e ?w1 ''arm7.tmp.bin''"
      let ?writes = "[WriteBytes ?s9 arm9_data, WriteBytes ?s7 [0xfe, 0xff, 0xff, 0xea]]"
      have quiet_writes: "\<not> invokes ''ndstool'' (pre @ ?writes)"
        using quiet by (auto simp add: invokes_def)
      show ?thesis
      proof (cases "report_image e ''ARM7'' 0x2380000 [0xfe, 0xff, 0xff, 0xea] = None")
        case False
        then have "events (snd (main e P w)) = events w @ pre" "isl (fst (main e P w))"
          by (auto simp add: m pre)
        moreover from False have "\<not> packer_reached e P w"
          by (simp add: packer_reached_def)
        ultimately show ?thesis using quiet by (intro quiet_log) auto
      next
        case reported: True
        then have mp: "main e P w = pack e st arm9_ep arm9_data 0x2380000 [0xfe, 0xff, 0xff, 0xea] ?w1"
          by (simp add: m)
        show ?thesis
        proof (cases "py_str_int arm9_ep")
          case (Inl exc)
          then have "events (snd (main e P w)) = events w @ (pre @ ?writes)"
            by (simp add: mp events_pack pre)
          moreover from Inl have "isl (fst (main e P w))"
            by (simp add: mp pack_def with_TemporaryDirectory_eq Let_def)
          moreover from Inl have "\<not> packer_reached e P w"
            by (simp add: packer_reached_def paths arm9)
          ultimately show ?thesis using quiet_writes by (intro quiet_log) auto
        next
          case (Inr e9)
          let ?command = "ndstool_command ?s9 ?s7 e9 ''37224448'' (packer_metadata st)"
          show ?thesis
          proof (cases "echoed e ?command")
            case False
            then have "events (snd (main e P w)) = events w @ (pre @ ?writes)"
              by (simp add: mp events_pack pre Inr str_default_arm7_ep)
            moreover have "isl (fst (main e P w))"
              unfolding mp by (rule pack_not_started [OF Inr str_default_arm7_ep False])
            moreover from False have "\<not> packer_reached e P w"
              by (simp add: packer_reached_def paths arm9 st Inr)
            ultimately show ?thesis using quiet_writes by (intro quiet_log) auto
          next
            case True
            let ?new = "pre @ ?writes @ [Run ?command]"
            have ev: "events (snd (main e P w)) = events w @ ?new"
              by (simp add: mp events_pack pre Inr str_default_arm7_ep True)
            have only: "command = ?command"
              if "Run command \<in> set ?new" and "take 1 command = [''ndstool'']" for command
              using that quiet by (auto simp add: invokes_def)
            from pack_started [OF Inr str_default_arm7_ep True, of arm9_data "[0xfe, 0xff, 0xff, 0xea]"]
            obtain fs where fs: "fs ?s9 = Some (File arm9_data)"
                "fs ?s7 = Some (File [0xfe, 0xff, 0xff, 0xea])"
                "fst (main e P w) =
                   (case fst (subprocess_run e ?command fs) of Inl exc \<Rightarrow> Inl exc | Inr out \<Rightarrow> Inr ())"
                "files (snd (main e P w)) =
                   (\<lambda>p. if is_inside (mkdtemp_name e (tmp_made ?w1) @ ''ndspacker'') p then None
                        else snd (subprocess_run e ?command fs) p)"
              unfolding mp by blast
            have "?new = pre @ [WriteBytes ?s9 arm9_data, WriteBytes ?s7 [0xfe, 0xff, 0xff, 0xea],
                Run ?command]"
              by simp
            moreover have "?s9 = path_child (mkdtemp_name e (tmp_made ?w1) @ ''ndspacker'') ''arm9.tmp.bin''"
              "?s7 = path_child (mkdtemp_name e (tmp_made ?w1) @ ''ndspacker'') ''arm7.tmp.bin''"
              by (simp_all add: saved_blob_def)
            ultimately have "default_arm7_call e (main e P w) ?new ?command"
              unfolding default_arm7_call_def using fs by blast
            with only have "\<forall>command. Run command \<in> set ?new \<and> take 1 command = [''ndstool''] \<longrightarrow>
                default_arm7_call e (main e P w) ?new command"
              by blast
            moreover have "invokes ''ndstool'' ?new"
              unfolding invokes_def using take_1_ndstool_command [of ?s9 ?s7 e9 "''37224448''" "packer_metadata st"]
              by (intro exI [of _ ?command]) simp
            moreover have "packer_reached e P w"
              unfolding packer_reached_def using paths st arm9 reported Inr True by blast
            ultimately show ?thesis using ev by blast
          qed
        qed
      qed
    qed
  qed
qed

section \<open>Entry points from header values\<close>

lemma hex_digit_facts:
  assumes "is_hex_digit c"
  shows "digit_in 16 c = Some (hex_digit c)" and "c \<noteq> CHR ''_''" and "\<not> is_int_space c"
    and "c \<noteq> CHR ''-''" and "c \<noteq> CHR ''+''" and "c \<noteq> CHR ''x''" and "c \<noteq> CHR ''X''"
proof -
  from assms have "c \<in> fst ` set hex_table"
    by (simp add: is_hex_digit_def map_of_eq_None_iff)
  then have c: "c \<in> set ''0123456789abcdefABCDEF''"
    by (simp add: hex_table_def)
  from c show "digit_in 16 c = Some (hex_digit c)"
    by (auto simp add: digit_in_def digit_value_def char_code_def hex_digit_def hex_table_def)
  from c show "c \<noteq> CHR ''_''" "c \<noteq> CHR ''-''" "c \<noteq> CHR ''+''" "c \<noteq> CHR ''x''" "c \<noteq> CHR ''X''"
    by auto
  from c show "\<not> is_int_space c"
    by (auto simp add: is_int_space_def char_code_def)
qed

lemma int_digits_hex:
  "\<forall>c \<in> set cs. is_hex_digit c \<Longrightarrow>
     int_digits 16 acc k cs = Some (foldl (\<lambda>a c. 16 * a + hex_digit c) acc cs, k + length cs)"
proof (induction cs arbitrary: acc k)
  case Nil
  show ?case by simp
next
  case (Cons c cs)
  then have c: "is_hex_digit c" and cs: "\<forall>c \<in> set cs. is_hex_digit c" by simp_all
  show ?case
    using Cons.IH [OF cs, of "acc * 16 + hex_digit c" "Suc k"] hex_digit_facts(1,2) [OF c]
    by (simp add: mult.commute)
qed

lemma dropWhile_id: "xs \<noteq> [] \<Longrightarrow> \<not> P (hd xs) \<Longrightarrow> dropWhile P xs = xs"
  by (cases xs) simp_all

lemma int_magnitude_hex:
  assumes ne: "s \<noteq> []" and hex: "\<forall>c \<in> set s. is_hex_digit c"
  shows "int_magnitude 16 s = Inr (hex_number s)"
proof -
  from ne obtain c cs where s: "s = c # cs" by (cases s) auto
  from hex s have c: "is_hex_digit c" and cs: "\<forall>c \<in> set cs. is_hex_digit c" by simp_all
  have "int_digits 16 (hex_digit c) 1 cs
      = Some (foldl (\<lambda>a c. 16 * a + hex_digit c) (hex_digit c) cs, 1 + length cs)"
    using cs by (rule int_digits_hex)
  then show ?thesis
    using hex_digit_facts(1) [OF c] by (simp add: int_magnitude_def s hex_number_def)
qed

lemma hex_digits_no_char:
  assumes hex: "\<forall>c \<in> set s. is_hex_digit c" and x: "\<not> is_hex_digit x"
  shows "x \<notin> set (take n s)"
  using hex x by (meson in_set_takeD)

lemma py_int_hex_digits:
  assumes ne: "s \<noteq> []" and hex: "\<forall>c \<in> set s. is_hex_digit c"
  shows "py_int s 16 = Inr (int (hex_number s))"
proof -
  have nothex: "\<not> is_hex_digit CHR ''-''" "\<not> is_hex_digit CHR ''+''"
      "\<not> is_hex_digit CHR ''x''" "\<not> is_hex_digit CHR ''X''"
    using hex_digit_facts(4-7) by blast+
  have first: "\<not> is_int_space (hd s)" and final: "\<not> is_int_space (last s)"
    using ne hex hex_digit_facts(3) by (meson hd_in_set, meson last_in_set)
  have s1: "dropWhile is_int_space s = s"
    using ne first by (rule dropWhile_id)
  have minus: "take 1 s \<noteq> ''-''"
    using hex_digits_no_char [OF hex nothex(1), of 1] by auto
  have plus: "take 1 s \<noteq> ''+''"
    using hex_digits_no_char [OF hex nothex(2), of 1] by auto
  have lower: "take 2 s \<noteq> ''0x''"
    using hex_digits_no_char [OF hex nothex(3), of 2] by auto
  have upper: "take 2 s \<noteq> ''0X''"
    using hex_digits_no_char [OF hex nothex(4), of 2] by auto
  have s2: "int_skip_prefix 16 (int_skip_sign s) = s"
    using minus plus lower upper by (simp add: int_skip_prefix_def int_skip_sign_def)
  have "dropWhile is_int_space (rev s) = rev s"
    using ne final by (intro dropWhile_id) (simp_all add: hd_rev)
  then have s3: "rev (dropWhile is_int_space (rev s)) = s" by simp
  show ?thesis
    unfolding py_int_def Let_def s1 s2 s3 int_magnitude_hex [OF ne hex]
    using minus by simp
qed

lemma hex_number_leading_zeros:
  "hex_number (replicate k CHR ''0'' @ ds) = hex_number ds"
proof -
  have "foldl (\<lambda>a c. 16 * a + hex_digit c) 0 (replicate k CHR ''0'') = 0"
    by (induction k) (simp_all add: hex_digit_def hex_table_def)
  then show ?thesis by (simp add: hex_number_def)
qed

lemma arm9_entry_point_digits:
  assumes "ds \<noteq> []" and "\<forall>c \<in> set ds. is_hex_digit c"
  shows "arm9_entry_point (''0x'' @ replicate k CHR ''0'' @ ds) = Inr (int (hex_number ds))"
proof -
  have z: "is_hex_digit CHR ''0''" by (simp add: is_hex_digit_def hex_table_def)
  have "arm9_entry_point (''0x'' @ replicate k CHR ''0'' @ ds) = py_int (replicate k CHR ''0'' @ ds) 16"
    by (simp add: arm9_entry_point_def)
  also have "\<dots> = Inr (int (hex_number (replicate k CHR ''0'' @ ds)))"
    using assms z by (intro py_int_hex_digits) auto
  finally show ?thesis
    by (simp add: hex_number_leading_zeros)
qed

text \<open>
  Claim C5. For an entry-point-address field \<^verbatim>\<open>0x\<close>, any number of padding zeros, and a
  non-empty string \<open>ds\<close> of hexadecimal digits, the ARM9 entry point the program computes
  is the number \<open>ds\<close> denotes, whatever the padding; and when the header dump of the ARM9
  image has machine \<^verbatim>\<open>ARM\<close> and this field, every entry point \<^const>\<open>read_arm9\<close> returns is
  that number.
\<close>

theorem arm9_entry_point_hex:
  "ds \<noteq> [] \<and> (\<forall>c \<in> set ds. is_hex_digit c) \<longrightarrow>
     arm9_entry_point (''0x'' @ replicate k CHR ''0'' @ ds) = Inr (int (hex_number ds))
     \<and> (fst (subprocess_run e (readelf_command P p) (files w)) = Inr out
          \<and> header_field out ''machine'' = Inr ''ARM''
          \<and> header_field out ''entry_point_address'' = Inr (''0x'' @ replicate k CHR ''0'' @ ds)
        \<longrightarrow> (\<forall>arm9_ep arm9_data.
               fst (read_arm9 e P p w) = Inr (arm9_ep, arm9_data) \<longrightarrow> arm9_ep = int (hex_number ds)))"
proof (intro impI conjI allI)
  assume a: "ds \<noteq> [] \<and> (\<forall>c \<in> set ds. is_hex_digit c)"
  then show ep: "arm9_entry_point (''0x'' @ replicate k CHR ''0'' @ ds) = Inr (int (hex_number ds))"
    by (intro arm9_entry_point_digits) simp_all
  fix arm9_ep arm9_data
  assume run: "fst (subprocess_run e (readelf_command P p) (files w)) = Inr out
          \<and> header_field out ''machine'' = Inr ''ARM''
          \<and> header_field out ''entry_point_address'' = Inr (''0x'' @ replicate k CHR ''0'' @ ds)"
    and r: "fst (read_arm9 e P p w) = Inr (arm9_ep, arm9_data)"
  from read_arm9_Inr(3) [OF r] obtain out' v
    where "fst (subprocess_run e (readelf_command P p) (files w)) = Inr out'"
      and "header_field out' ''entry_point_address'' = Inr v"
      and "arm9_entry_point v = Inr arm9_ep"
    by blast
  with run ep show "arm9_ep = int (hex_number ds)"
    by simp
qed

subsection \<open>The example surroundings\<close>

lemma demo_path_str: "path_str ''game.elf'' = ''game.elf''" "path_str ''arm7.elf'' = ''arm7.elf''"
  "path_suffix ''arm7.elf'' = ''.elf''"
  by code_simp+

lemma demo_prints [simp]:
  "rich_markup_ok (demo_env dump args) text"
  "echoed (demo_env dump args) (c0 # rest)"
  "report_image (demo_env dump args) cpu ep image_data = None"
  by (simp_all add: demo_env_def echoed_def report_image_def rich_print_def)

lemma demo_main_paths:
  "main_paths (demo_env dump [''game.elf'']) demo_world = Inr (''game.elf'', None)"
  "main_paths (demo_env dump [''game.elf'', ''arm7.elf'']) demo_world = Inr (''game.elf'', Some ''arm7.elf'')"
  by (simp_all add: main_paths_def demo_env_def demo_world_def path_exists_def demo_path_str)

lemma demo_load_settings:
  "load_settings (demo_env dump args) demo_world = Inr DEFAULT_PACKER_SETTINGS"
  by (simp add: load_settings_def demo_env_def demo_world_def read_bytes_def path_child_def)

lemma demo_readelf:
  "fst (subprocess_run (demo_env dump args) (readelf_command ''llvm-'' p) fs) = Inr dump"
  by (simp add: demo_env_def demo_run_def readelf_command_def)

lemma demo_header_fields:
  "header_field x86_dump ''machine'' = Inr ''Advanced Micro Devices X86-64''"
  "header_field arm_dump ''machine'' = Inr ''ARM''"
  "header_field arm_dump ''entry_point_address'' = Inr ''0x2000000''"
  "header_field tagged_dump ''machine'' = Inr ''[/x]''"
  "header_field decimal_dump ''machine'' = Inr ''ARM''"
  "header_field decimal_dump ''entry_point_address'' = Inr ''8000''"
  by code_simp+

text \<open>The field \<^verbatim>\<open>0x2000000\<close>, bare and padded, and the run on the ARM dump.\<close>

lemma hex_number_example: "hex_number ''2000000'' = 0x2000000"
  by (simp add: hex_number_def hex_digit_def hex_table_def)

lemma hex_digits_example: "''2000000'' \<noteq> [] \<and> (\<forall>c \<in> set ''2000000''. is_hex_digit c)"
  by (simp add: is_hex_digit_def hex_table_def)

lemma demo_objcopy:
  "fst (subprocess_run (demo_env dump args) (objcopy_command ''llvm-'' p output_path) fs) = Inr []"
  "snd (subprocess_run (demo_env dump args) (objcopy_command ''llvm-'' p output_path) fs) output_path
     = Some (File [1, 2, 3])"
  by (simp_all add: demo_env_def demo_run_def objcopy_command_def)

lemma demo_read_from_elf: "fst (read_from_elf (demo_env dump args) ''llvm-'' p w) = Inr [1, 2, 3]"
  by (rule read_from_elf_ok [OF _ demo_objcopy]) (simp add: objcopy_command_def)

lemma demo_arm9_entry_point: "arm9_entry_point ''0x2000000'' = Inr 0x2000000"
  using arm9_entry_point_digits [of "''2000000''" 0] hex_digits_example
  by (simp add: hex_number_example)

lemma demo_read_arm9:
  "fst (read_arm9 (demo_env arm_dump args) ''llvm-'' p w) = Inr (0x2000000, [1, 2, 3])"
  by (simp add: read_arm9_ok [OF _ _ demo_readelf demo_header_fields(2,3) demo_arm9_entry_point
        demo_read_from_elf] readelf_command_def)

theorem arm9_entry_point_hex_witness:
  "''2000000'' \<noteq> [] \<and> list_all is_hex_digit ''2000000''
   \<and> arm9_entry_point ''0x2000000'' = Inr 0x2000000
   \<and> arm9_entry_point ''0x0002000000'' = Inr 0x2000000
   \<and> fst (subprocess_run (demo_env arm_dump [''game.elf'']) (readelf_command ''llvm-'' ''game.elf'')
            (files demo_world)) = Inr arm_dump
   \<and> header_field arm_dump ''machine'' = Inr ''ARM''
   \<and> header_field arm_dump ''entry_point_address'' = Inr ''0x2000000''
   \<and> fst (read_arm9 (demo_env arm_dump [''game.elf'']) ''llvm-'' ''game.elf'' demo_world)
       = Inr (0x2000000, [1, 2, 3])"
proof -
  note t0 = arm9_entry_point_hex [of "''2000000''" 0 "demo_env arm_dump [''game.elf'']" "''llvm-''"
      "''game.elf''" demo_world arm_dump]
  note t3 = arm9_entry_point_hex [of "''2000000''" 3 "demo_env arm_dump [''game.elf'']" "''llvm-''"
      "''game.elf''" demo_world arm_dump]
  from t0 hex_digits_example have a0: "arm9_entry_point ''0x2000000'' = Inr 0x2000000"
    by (simp add: hex_number_example)
  from t3 hex_digits_example have a3: "arm9_entry_point ''0x0002000000'' = Inr 0x2000000"
    by (simp add: hex_number_example numeral_3_eq_3)
  from hex_digits_example have ne: "''2000000'' \<noteq> []" and hex: "list_all is_hex_digit ''2000000''"
    by (simp_all add: list_all_iff)
  from ne hex a0 a3 demo_readelf demo_header_fields(2,3) demo_read_arm9
  show ?thesis by (intro conjI)
qed

subsection \<open>Runs that end at the machine value\<close>

lemma markup_main_paths:
  "main_paths (markup_env dump [''game.elf'']) demo_world = Inr (''game.elf'', None)"
  by (simp add: main_paths_def markup_env_def demo_env_def demo_world_def path_exists_def
      demo_path_str)

lemma markup_load_settings:
  "load_settings (markup_env dump args) demo_world = Inr DEFAULT_PACKER_SETTINGS"
  by (simp add: load_settings_def markup_env_def demo_env_def demo_world_def read_bytes_def
      path_child_def)

lemma markup_readelf:
  "fst (subprocess_run (markup_env dump args) (readelf_command ''llvm-'' p) fs) = Inr dump"
  by (simp add: markup_env_def demo_env_def demo_run_def readelf_command_def)

lemma length_differs: "length xs \<noteq> length ys \<Longrightarrow> xs \<noteq> ys"
  by auto

lemma markup_prints:
  "rich_markup_ok (markup_env dump args) ''[cyan]reading ARM9 binary...[/cyan]''"
  "echoed (markup_env dump args) (readelf_command ''llvm-'' ''game.elf'')"
  "\<not> rich_markup_ok (markup_env dump args) (not_arm_text ''[/x]'')"
  by (simp_all add: markup_env_def demo_env_def echoed_def readelf_command_def echo_text_def
      not_arm_text_def demo_path_str length_differs)

text \<open>
  A run on an x86-64 ELF, and a run on a dump with the machine value \<^verbatim>\<open>[/x]\<close> in a
  surrounding whose \<^verbatim>\<open>rich\<close> refuses the message about it.
\<close>

theorem not_arm_exits_witness:
  "main_paths (demo_env x86_dump [''game.elf'']) demo_world = Inr (''game.elf'', None)
   \<and> \<not> isl (load_settings (demo_env x86_dump [''game.elf'']) demo_world)
   \<and> rich_markup_ok (demo_env x86_dump [''game.elf'']) ''[cyan]reading ARM9 binary...[/cyan]''
   \<and> echoed (demo_env x86_dump [''game.elf'']) (readelf_command ''llvm-'' ''game.elf'')
   \<and> fst (subprocess_run (demo_env x86_dump [''game.elf'']) (readelf_command ''llvm-'' ''game.elf'')
            (files demo_world)) = Inr x86_dump
   \<and> header_field x86_dump ''machine'' = Inr ''Advanced Micro Devices X86-64''
   \<and> ''Advanced Micro Devices X86-64'' \<noteq> ''ARM''
   \<and> fst (main (demo_env x86_dump [''game.elf'']) ''llvm-'' demo_world) = Inl (SystemExit 1)
   \<and> exit_code (fst (main (demo_env x86_dump [''game.elf'']) ''llvm-'' demo_world)) = 1
   \<and> events (snd (main (demo_env x86_dump [''game.elf'']) ''llvm-'' demo_world))
       = [Run [''llvm-readelf'', ''-h'', ''game.elf'']]
   \<and> main_paths (markup_env tagged_dump [''game.elf'']) demo_world = Inr (''game.elf'', None)
   \<and> \<not> isl (load_settings (markup_env tagged_dump [''game.elf'']) demo_world)
   \<and> rich_markup_ok (markup_env tagged_dump [''game.elf'']) ''[cyan]reading ARM9 binary...[/cyan]''
   \<and> echoed (markup_env tagged_dump [''game.elf'']) (readelf_command ''llvm-'' ''game.elf'')
   \<and> fst (subprocess_run (markup_env tagged_dump [''game.elf'']) (readelf_command ''llvm-'' ''game.elf'')
            (files demo_world)) = Inr tagged_dump
   \<and> header_field tagged_dump ''machine'' = Inr ''[/x]''
   \<and> ''[/x]'' \<noteq> ''ARM''
   \<and> fst (main (markup_env tagged_dump [''game.elf'']) ''llvm-'' demo_world) = Inl MarkupError
   \<and> exit_code (fst (main (markup_env tagged_dump [''game.elf'']) ''llvm-'' demo_world)) = 1
   \<and> events (snd (main (markup_env tagged_dump [''game.elf'']) ''llvm-'' demo_world))
       = [Run [''llvm-readelf'', ''-h'', ''game.elf'']]"
proof -
  let ?e = "demo_env x86_dump [''game.elf'']" and ?t = "markup_env tagged_dump [''game.elf'']"
  have s: "\<not> isl (load_settings ?e demo_world)"
    by (simp add: demo_load_settings)
  have p: "rich_markup_ok ?e ''[cyan]reading ARM9 binary...[/cyan]''"
    and ec: "echoed ?e (readelf_command ''llvm-'' ''game.elf'')"
    by (simp_all add: readelf_command_def)
  have m: "''Advanced Micro Devices X86-64'' \<noteq> ''ARM''" by simp
  from not_arm_exits [OF demo_main_paths(1) s p ec demo_readelf demo_header_fields(1) m]
  have x: "fst (main ?e ''llvm-'' demo_world) = Inl (SystemExit 1)"
      "exit_code (fst (main ?e ''llvm-'' demo_world)) = 1"
      "events (snd (main ?e ''llvm-'' demo_world)) = [Run [''llvm-readelf'', ''-h'', ''game.elf'']]"
    by (simp_all add: demo_world_def readelf_command_def demo_path_str exit_code_def)
  have s': "\<not> isl (load_settings ?t demo_world)"
    by (simp add: markup_load_settings)
  have m': "''[/x]'' \<noteq> ''ARM''" by simp
  from not_arm_exits [OF markup_main_paths s' markup_prints(1,2) markup_readelf
      demo_header_fields(4) m']
  have t: "fst (main ?t ''llvm-'' demo_world) = Inl MarkupError"
      "exit_code (fst (main ?t ''llvm-'' demo_world)) = 1"
      "events (snd (main ?t ''llvm-'' demo_world)) = [Run [''llvm-readelf'', ''-h'', ''game.elf'']]"
    using markup_prints(3) [of tagged_dump "[''game.elf'']"]
    by (simp_all add: demo_world_def readelf_command_def demo_path_str exit_code_def)
  from demo_main_paths(1) s p ec demo_readelf demo_header_fields(1) m x
    markup_main_paths s' markup_prints(1,2) markup_readelf demo_header_fields(4) m' t
  show ?thesis by (intro conjI)
qed

subsection \<open>The run with the default ARM7 image\<close>

text \<open>The complete log of the run on the ARM dump with no ARM7 path and no settings file.\<close>

lemma str_demo_arm9_ep: "py_str_int 0x2000000 = Inr ''33554432''"
  by (simp add: py_str_int_def str_nat.simps digit_char_def)

lemma demo_events_read_arm9:
  "events (snd (read_arm9 (demo_env arm_dump args) ''llvm-'' ''game.elf'' demo_world)) =
     [Run [''llvm-readelf'', ''-h'', ''game.elf''],
      Run [''llvm-objcopy'', ''-O'', ''binary'', ''game.elf'', ''/tmp/tmpa/out.o'']]"
  using read_arm9_Inr_world(1) [OF demo_read_arm9 [of args "''game.elf''" demo_world]]
  by (simp add: demo_world_def demo_env_def readelf_command_def objcopy_command_def demo_path_str
      path_child_def)

lemma demo_saved_blob:
  "saved_blob (demo_env arm_dump args)
     (snd (read_arm9 (demo_env arm_dump args) ''llvm-'' ''game.elf'' demo_world)) name
   = ''/tmp/tmpbndspacker/'' @ name"
  using read_arm9_Inr_world(2) [OF demo_read_arm9 [of args "''game.elf''" demo_world]]
  by (simp add: saved_blob_def demo_env_def demo_world_def path_child_def)

lemma default_metadata: "packer_metadata DEFAULT_PACKER_SETTINGS = (''01'', ''ENAE'', ''NDSPACKER'')"
  by (simp add: packer_metadata_def DEFAULT_PACKER_SETTINGS_def dict_get_def)

lemma demo_main_events:
  "events (snd (main (demo_env arm_dump [''game.elf'']) ''llvm-'' demo_world)) =
     [Run [''llvm-readelf'', ''-h'', ''game.elf''],
      Run [''llvm-objcopy'', ''-O'', ''binary'', ''game.elf'', ''/tmp/tmpa/out.o''],
      WriteBytes ''/tmp/tmpbndspacker/arm9.tmp.bin'' [1, 2, 3],
      WriteBytes ''/tmp/tmpbndspacker/arm7.tmp.bin'' [0xfe, 0xff, 0xff, 0xea],
      Run [''ndstool'', ''-c'', ''./rom.nds'',
           ''-9'', ''/tmp/tmpbndspacker/arm9.tmp.bin'',
           ''-7'', ''/tmp/tmpbndspacker/arm7.tmp.bin'',
           ''-e9'', ''33554432'', ''-r9'', ''0x2000000'',
           ''-e7'', ''37224448'',
           ''-g'', ''ENAE'', ''01'', ''NDSPACKER'', ''1'']]"
  by (simp add: main_default_arm7 [OF demo_main_paths(1) demo_load_settings demo_read_arm9]
      events_pack demo_events_read_arm9 demo_saved_blob str_demo_arm9_ep str_default_arm7_ep
      default_metadata ndstool_command_def)

lemma demo_ndstool:
  "take 1 command = [''ndstool''] \<Longrightarrow>
     subprocess_run (demo_env dump args) command fs = (Inr [], fs(''./rom.nds'' \<mapsto> File []))"
  by (simp add: demo_env_def demo_run_def)

lemma ndstool_command_blobs:
  assumes "ndstool_command saved_arm9 saved_arm7 e9 e7 meta =
      [''ndstool'', ''-c'', ''./rom.nds'', ''-9'', s9, ''-7'', s7, ''-e9'', x9, ''-r9'', ''0x2000000'',
       ''-e7'', x7, ''-g'', g, m, t, ''1'']"
  shows "saved_arm9 = s9" and "saved_arm7 = s7"
  using assms by (cases meta; simp add: ndstool_command_def)+

lemma path_child_directory:
  "path_child d name = ''/tmp/tmpbndspacker/'' @ name \<Longrightarrow> name \<noteq> [] \<Longrightarrow> CHR ''/'' \<notin> set name
     \<Longrightarrow> d = ''/tmp/tmpbndspacker''"
proof -
  assume a: "path_child d name = ''/tmp/tmpbndspacker/'' @ name" and "name \<noteq> []"
    and n: "CHR ''/'' \<notin> set name"
  show ?thesis
  proof (cases "d = ''/''")
    case True
    with a have "''/'' @ name = ''/tmp/tmpbndspacker/'' @ name" by (simp add: path_child_def)
    then have "length (''/'' @ name) = length (''/tmp/tmpbndspacker/'' @ name)" by (rule arg_cong)
    then show ?thesis by simp
  next
    case False
    with a have "d @ ''/'' @ name = ''/tmp/tmpbndspacker'' @ ''/'' @ name" by (simp add: path_child_def)
    then show ?thesis by simp
  qed
qed

text \<open>
  The run on the ARM dump with no ARM7 path: the packer is started once, with
  \<^verbatim>\<open>-e7 37224448\<close>, the run returns, and the ROM the packer wrote is what it leaves.
\<close>

theorem default_arm7_passed_to_packer_witness:
  "length (sys_argv (demo_env arm_dump [''game.elf''])) \<le> 2
   \<and> events (snd (main (demo_env arm_dump [''game.elf'']) ''llvm-'' demo_world)) =
       [Run [''llvm-readelf'', ''-h'', ''game.elf''],
        Run [''llvm-objcopy'', ''-O'', ''binary'', ''game.elf'', ''/tmp/tmpa/out.o''],
        WriteBytes ''/tmp/tmpbndspacker/arm9.tmp.bin'' [1, 2, 3],
        WriteBytes ''/tmp/tmpbndspacker/arm7.tmp.bin'' [0xfe, 0xff, 0xff, 0xea],
        Run [''ndstool'', ''-c'', ''./rom.nds'',
             ''-9'', ''/tmp/tmpbndspacker/arm9.tmp.bin'',
             ''-7'', ''/tmp/tmpbndspacker/arm7.tmp.bin'',
             ''-e9'', ''33554432'', ''-r9'', ''0x2000000'',
             ''-e7'', ''37224448'',
             ''-g'', ''ENAE'', ''01'', ''NDSPACKER'', ''1'']]
   \<and> default_arm7_call (demo_env arm_dump [''game.elf''])
        (main (demo_env arm_dump [''game.elf'']) ''llvm-'' demo_world)
        (events (snd (main (demo_env arm_dump [''game.elf'']) ''llvm-'' demo_world)))
        [''ndstool'', ''-c'', ''./rom.nds'',
           ''-9'', ''/tmp/tmpbndspacker/arm9.tmp.bin'',
           ''-7'', ''/tmp/tmpbndspacker/arm7.tmp.bin'',
           ''-e9'', ''33554432'', ''-r9'', ''0x2000000'',
           ''-e7'', ''37224448'',
           ''-g'', ''ENAE'', ''01'', ''NDSPACKER'', ''1'']
   \<and> packer_reached (demo_env arm_dump [''game.elf'']) ''llvm-'' demo_world
   \<and> fst (main (demo_env arm_dump [''game.elf'']) ''llvm-'' demo_world) = Inr ()
   \<and> files (snd (main (demo_env arm_dump [''game.elf'']) ''llvm-'' demo_world)) ''./rom.nds''
       = Some (File [])
   \<and> files (snd (main (demo_env arm_dump [''game.elf'']) ''llvm-'' demo_world))
       ''/tmp/tmpbndspacker/arm7.tmp.bin'' = None"
proof -
  let ?e = "demo_env arm_dump [''game.elf'']"
  let ?command = "[''ndstool'', ''-c'', ''./rom.nds'',
           ''-9'', ''/tmp/tmpbndspacker/arm9.tmp.bin'',
           ''-7'', ''/tmp/tmpbndspacker/arm7.tmp.bin'',
           ''-e9'', ''33554432'', ''-r9'', ''0x2000000'',
           ''-e7'', ''37224448'',
           ''-g'', ''ENAE'', ''01'', ''NDSPACKER'', ''1'']"
  let ?result = "main ?e ''llvm-'' demo_world"
  have len: "length (sys_argv ?e) \<le> 2"
    by (simp add: demo_env_def)
  have mem: "Run ?command \<in> set (events (snd ?result))"
    by (simp add: demo_main_events)
  have head: "take 1 ?command = [''ndstool'']"
    by simp
  from default_arm7_passed_to_packer [OF len, of "''llvm-''" demo_world]
  obtain new where new: "events (snd ?result) = events demo_world @ new"
    and call: "\<forall>command. Run command \<in> set new \<and> take 1 command = [''ndstool''] \<longrightarrow>
            default_arm7_call ?e ?result new command"
    and reach: "invokes ''ndstool'' new \<longleftrightarrow> packer_reached ?e ''llvm-'' demo_world"
    by blast
  from new have new_eq: "new = events (snd ?result)"
    by (simp add: demo_world_def)
  with call mem head have started: "default_arm7_call ?e ?result (events (snd ?result)) ?command"
    by blast
  from mem head have "invokes ''ndstool'' (events (snd ?result))"
    unfolding invokes_def by blast
  with reach new_eq have reached: "packer_reached ?e ''llvm-'' demo_world"
    by simp
  from started obtain saved_arm9 saved_arm7 e9 meta fs directory
    where c: "?command = ndstool_command saved_arm9 saved_arm7 e9 ''37224448'' meta"
      and d: "saved_arm7 = path_child directory ''arm7.tmp.bin''"
      and r: "fst ?result = (case fst (subprocess_run ?e ?command fs) of
                         Inl exc \<Rightarrow> Inl exc | Inr out \<Rightarrow> Inr ())"
      and f: "files (snd ?result) =
           (\<lambda>p. if is_inside directory p then None else snd (subprocess_run ?e ?command fs) p)"
    unfolding default_arm7_call_def by blast
  from ndstool_command_blobs(2) [OF c [symmetric]] d
  have "path_child directory ''arm7.tmp.bin'' = ''/tmp/tmpbndspacker/'' @ ''arm7.tmp.bin''"
    by simp
  then have dir: "directory = ''/tmp/tmpbndspacker''"
    by (rule path_child_directory) simp_all
  from r have returned: "fst ?result = Inr ()"
    by (simp add: demo_ndstool [OF head])
  have rom: "files (snd ?result) ''./rom.nds'' = Some (File [])"
    and gone: "files (snd ?result) ''/tmp/tmpbndspacker/arm7.tmp.bin'' = None"
    by (simp_all add: f dir demo_ndstool [OF head] is_inside_def path_child_def)
  from len demo_main_events started reached returned rom gone show ?thesis
    by (intro conjI)
qed

section \<open>Temporary files\<close>

lemma files_pack_written:
  assumes "events (snd (pack e st arm9_ep arm9_data arm7_ep arm7_data w)) = events w @ new"
      and "WriteBytes path content \<in> set new"
  shows "files (snd (pack e st arm9_ep arm9_data arm7_ep arm7_data w)) path = None"
proof -
  from assms(1) have "new =
       [WriteBytes (saved_blob e w ''arm9.tmp.bin'') arm9_data,
        WriteBytes (saved_blob e w ''arm7.tmp.bin'') arm7_data]
     @ (case py_str_int arm9_ep of
          Inl exc \<Rightarrow> []
        | Inr e9 \<Rightarrow>
            (case py_str_int arm7_ep of
               Inl exc \<Rightarrow> []
             | Inr e7 \<Rightarrow>
                 if echoed e (ndstool_command (saved_blob e w ''arm9.tmp.bin'')
                        (saved_blob e w ''arm7.tmp.bin'') e9 e7 (packer_metadata st))
                 then [Run (ndstool_command (saved_blob e w ''arm9.tmp.bin'')
                        (saved_blob e w ''arm7.tmp.bin'') e9 e7 (packer_metadata st))]
                 else []))"
    by (simp add: events_pack)
  with assms(2) have "path = saved_blob e w ''arm9.tmp.bin'' \<or> path = saved_blob e w ''arm7.tmp.bin''"
    by (auto split: sum.splits if_splits)
  then show ?thesis by (auto simp add: files_pack)
qed

lemma main_written_files_removed:
  "\<exists>new. events (snd (main e P w)) = events w @ new
     \<and> (\<forall>path content. WriteBytes path content \<in> set new \<longrightarrow> files (snd (main e P w)) path = None)"
proof -
  have quiet: ?thesis if "events (snd (main e P w)) = events w @ pre" and "no_writes pre" for pre
    using that unfolding no_writes_def by blast
  have nil: "no_writes []" by (simp add: no_writes_def)
  show ?thesis
  proof (cases "main_paths e w")
    case (Inl exc)
    then have "events (snd (main e P w)) = events w @ []" by (simp add: main_def)
    then show ?thesis using nil by (rule quiet)
  next
    case (Inr images)
    obtain arm9_image arm7_image where paths: "main_paths e w = Inr (arm9_image, arm7_image)"
      using Inr by (cases images) simp
    show ?thesis
    proof (cases "load_settings e w")
      case (Inl exc)
      then have "events (snd (main e P w)) = events w @ []" by (simp add: main_def paths)
      then show ?thesis using nil by (rule quiet)
    next
      case st: (Inr st)
      obtain r9 w1 where a9: "read_arm9 e P arm9_image w = (r9, w1)"
        by (cases "read_arm9 e P arm9_image w")
      from events_read_arm9_shape [of e P arm9_image w] a9
      obtain pre1 where pre1: "events w1 = events w @ pre1" "no_writes pre1"
        using inspections_quiet(1) by auto
      show ?thesis
      proof (cases r9)
        case (Inl exc)
        have "events (snd (main e P w)) = events w @ pre1"
          unfolding main_def by (simp add: paths st a9 Inl pre1)
        then show ?thesis using pre1(2) by (rule quiet)
      next
        case (Inr v9)
        obtain arm9_ep arm9_data where v9: "v9 = (arm9_ep, arm9_data)" by (cases v9)
        obtain r7 w2 where a7: "read_arm7 e P arm7_image w1 = (r7, w2)"
          by (cases "read_arm7 e P arm7_image w1")
        from events_read_arm7_shape [of e P arm7_image w1] a7
        obtain pre2 where pre2: "events w2 = events w1 @ pre2" "no_writes pre2"
          using inspections_quiet(1) by auto
        have both: "no_writes (pre1 @ pre2)"
          using pre1(2) pre2(2) by (auto simp add: no_writes_def)
        show ?thesis
        proof (cases r7)
          case (Inl exc)
          have "events (snd (main e P w)) = events w @ (pre1 @ pre2)"
            unfolding main_def by (simp add: paths st a9 Inr v9 a7 Inl pre1 pre2)
          then show ?thesis using both by (rule quiet)
        next
          case r7: (Inr v7)
          obtain arm7_ep arm7_data where v7: "v7 = (arm7_ep, arm7_data)" by (cases v7)
          have m: "main e P w = pack e st arm9_ep arm9_data arm7_ep arm7_data w2"
            unfolding main_def by (simp add: paths st a9 Inr v9 a7 r7 v7)
          obtain tail where tail: "events (snd (main e P w)) = events w2 @ tail"
            by (simp add: m events_pack)
          have gone: "files (snd (main e P w)) path = None"
            if "WriteBytes path content \<in> set tail" for path content
            using tail that unfolding m by (rule files_pack_written)
          have ev: "events (snd (main e P w)) = events w @ (pre1 @ pre2 @ tail)"
            by (simp add: tail pre1 pre2)
          have "\<forall>path content. WriteBytes path content \<in> set (pre1 @ pre2 @ tail) \<longrightarrow>
              files (snd (main e P w)) path = None"
            using gone pre1(2) pre2(2) by (auto simp add: no_writes_def)
          with ev show ?thesis by blast
        qed
      qed
    qed
  qed
qed

lemma files_read_from_elf_dir:
  "files (snd (read_from_elf e P p w)) (mkdtemp_name e (tmp_made w)) = None"
  unfolding read_from_elf_def
  using files_with_TemporaryDirectory [of e w "[]" "mkdtemp_name e (tmp_made w)"]
  by (simp add: is_inside_self)

text \<open>
  Claim C9. Whatever the tools do and whether the operation returns or raises: when
  \<^const>\<open>read_from_elf\<close> is over, neither the \<^verbatim>\<open>objcopy\<close> output file nor its temporary
  directory exists; when \<^const>\<open>pack\<close> is over, neither of the two saved blob files
  exists; and when \<^const>\<open>main\<close> is over, no file that the run has written exists.
\<close>

theorem temporary_files_removed:
  "files (snd (read_from_elf e P p w)) (path_child (mkdtemp_name e (tmp_made w)) ''out.o'') = None
   \<and> files (snd (read_from_elf e P p w)) (mkdtemp_name e (tmp_made w)) = None
   \<and> files (snd (pack e st arm9_ep arm9_data arm7_ep arm7_data w)) (saved_blob e w ''arm9.tmp.bin'') = None
   \<and> files (snd (pack e st arm9_ep arm9_data arm7_ep arm7_data w)) (saved_blob e w ''arm7.tmp.bin'') = None
   \<and> (\<exists>new. events (snd (main e P w)) = events w @ new
         \<and> (\<forall>path content. WriteBytes path content \<in> set new \<longrightarrow>
                files (snd (main e P w)) path = None))"
  by (intro conjI files_read_from_elf files_read_from_elf_dir files_pack main_written_files_removed)

text \<open>A run to the end, and an extraction whose \<^verbatim>\<open>objcopy\<close> fails after writing its file.\<close>

lemma demo_tmp_paths:
  "path_child (mkdtemp_name (demo_env dump args) (tmp_made demo_world)) ''out.o'' = ''/tmp/tmpa/out.o''"
  "path_child (mkdtemp_name (failing_env dump args) (tmp_made demo_world)) ''out.o'' = ''/tmp/tmpa/out.o''"
  by (simp_all add: demo_env_def failing_env_def demo_world_def path_child_def)

lemma failing_read_from_elf:
  "fst (read_from_elf (failing_env dump args) ''llvm-'' p w) = Inl CalledProcessError"
proof -
  have "echoed (failing_env dump args)
      (objcopy_command ''llvm-'' p (path_child (mkdtemp_name (failing_env dump args) (tmp_made w)) ''out.o''))"
    by (simp add: failing_env_def demo_env_def echoed_def objcopy_command_def)
  then show ?thesis
    by (simp add: read_from_elf_echoed Let_def failing_env_def demo_env_def mkdtemp_def)
qed

theorem temporary_files_removed_witness:
  "WriteBytes ''/tmp/tmpbndspacker/arm9.tmp.bin'' [1, 2, 3]
      \<in> set (events (snd (main (demo_env arm_dump [''game.elf'']) ''llvm-'' demo_world)))
   \<and> files (snd (main (demo_env arm_dump [''game.elf'']) ''llvm-'' demo_world))
        ''/tmp/tmpbndspacker/arm9.tmp.bin'' = None
   \<and> WriteBytes ''/tmp/tmpbndspacker/arm7.tmp.bin'' [0xfe, 0xff, 0xff, 0xea]
      \<in> set (events (snd (main (demo_env arm_dump [''game.elf'']) ''llvm-'' demo_world)))
   \<and> files (snd (main (demo_env arm_dump [''game.elf'']) ''llvm-'' demo_world))
        ''/tmp/tmpbndspacker/arm7.tmp.bin'' = None
   \<and> fst (read_from_elf (demo_env arm_dump [''game.elf'']) ''llvm-'' ''game.elf'' demo_world)
        = Inr [1, 2, 3]
   \<and> files (snd (read_from_elf (demo_env arm_dump [''game.elf'']) ''llvm-'' ''game.elf'' demo_world))
        ''/tmp/tmpa/out.o'' = None
   \<and> fst (read_from_elf (failing_env arm_dump [''game.elf'']) ''llvm-'' ''game.elf'' demo_world)
        = Inl CalledProcessError
   \<and> files (snd (read_from_elf (failing_env arm_dump [''game.elf'']) ''llvm-'' ''game.elf'' demo_world))
        ''/tmp/tmpa/out.o'' = None"
proof -
  let ?e = "demo_env arm_dump [''game.elf'']" and ?f = "failing_env arm_dump [''game.elf'']"
  note ok = temporary_files_removed [of ?e "''llvm-''" "''game.elf''" demo_world]
  note failing = temporary_files_removed [of ?f "''llvm-''" "''game.elf''" demo_world]
  from ok obtain new where new: "events (snd (main ?e ''llvm-'' demo_world)) = events demo_world @ new"
    and gone: "\<forall>path content. WriteBytes path content \<in> set new \<longrightarrow>
                files (snd (main ?e ''llvm-'' demo_world)) path = None"
    by blast
  from new have new_eq: "new = events (snd (main ?e ''llvm-'' demo_world))"
    by (simp add: demo_world_def)
  have w9: "WriteBytes ''/tmp/tmpbndspacker/arm9.tmp.bin'' [1, 2, 3]
      \<in> set (events (snd (main ?e ''llvm-'' demo_world)))"
    and w7: "WriteBytes ''/tmp/tmpbndspacker/arm7.tmp.bin'' [0xfe, 0xff, 0xff, 0xea]
      \<in> set (events (snd (main ?e ''llvm-'' demo_world)))"
    by (simp_all add: demo_main_events)
  from gone w9 w7 have g9: "files (snd (main ?e ''llvm-'' demo_world)) ''/tmp/tmpbndspacker/arm9.tmp.bin'' = None"
    and g7: "files (snd (main ?e ''llvm-'' demo_world)) ''/tmp/tmpbndspacker/arm7.tmp.bin'' = None"
    unfolding new_eq [symmetric] by blast+
  from ok have o1: "files (snd (read_from_elf ?e ''llvm-'' ''game.elf'' demo_world)) ''/tmp/tmpa/out.o'' = None"
    by (simp add: demo_tmp_paths)
  from failing have o2: "files (snd (read_from_elf ?f ''llvm-'' ''game.elf'' demo_world)) ''/tmp/tmpa/out.o'' = None"
    by (simp add: demo_tmp_paths)
  from w9 g9 w7 g7 demo_read_from_elf o1 failing_read_from_elf o2 show ?thesis
    by (intro conjI)
qed

section \<open>The settings\<close>

lemma settings_main_paths:
  "main_paths (demo_env dump [''game.elf'']) settings_world = Inr (''game.elf'', None)"
  by (simp add: main_paths_def demo_env_def demo_world_def settings_world_def path_exists_def
      demo_path_str)

lemma settings_load_settings:
  "load_settings (demo_env dump args) settings_world = Inr Map.empty"
  by (simp add: load_settings_def demo_env_def demo_world_def settings_world_def read_bytes_def
      path_child_def)

lemma empty_metadata: "packer_metadata Map.empty = (''01'', ''ABCD'', ''NITRO-SDK'')"
  by (simp add: packer_metadata_def dict_get_def)

lemma settings_events_read_arm9:
  "events (snd (read_arm9 (demo_env arm_dump args) ''llvm-'' ''game.elf'' settings_world)) =
     [Run [''llvm-readelf'', ''-h'', ''game.elf''],
      Run [''llvm-objcopy'', ''-O'', ''binary'', ''game.elf'', ''/tmp/tmpa/out.o'']]"
  using read_arm9_Inr_world(1) [OF demo_read_arm9 [of args "''game.elf''" settings_world]]
  by (simp add: demo_world_def settings_world_def demo_env_def readelf_command_def
      objcopy_command_def demo_path_str path_child_def)

lemma settings_saved_blob:
  "saved_blob (demo_env arm_dump args)
     (snd (read_arm9 (demo_env arm_dump args) ''llvm-'' ''game.elf'' settings_world)) name
   = ''/tmp/tmpbndspacker/'' @ name"
  using read_arm9_Inr_world(2) [OF demo_read_arm9 [of args "''game.elf''" settings_world]]
  by (simp add: saved_blob_def demo_env_def demo_world_def settings_world_def path_child_def)

text \<open>
  Claim C4 fails on the code. With no \<^verbatim>\<open>ndspacker.toml\<close> the run passes
  \<^verbatim>\<open>-g ENAE 01 NDSPACKER 1\<close> to the packer (the table \<^const>\<open>DEFAULT_PACKER_SETTINGS\<close>); with an
  \<^verbatim>\<open>ndspacker.toml\<close> that defines no key it passes \<^verbatim>\<open>-g ABCD 01 NITRO-SDK 1\<close> (the
  fall-backs of the three \<^verbatim>\<open>get\<close> calls). The defaults for a missing file and for a
  missing key differ in the game code and the game title.
\<close>

theorem default_metadata_differ:
  "load_settings (demo_env arm_dump [''game.elf'']) demo_world = Inr DEFAULT_PACKER_SETTINGS
   \<and> packer_metadata DEFAULT_PACKER_SETTINGS = (''01'', ''ENAE'', ''NDSPACKER'')
   \<and> last (events (snd (main (demo_env arm_dump [''game.elf'']) ''llvm-'' demo_world))) =
       Run [''ndstool'', ''-c'', ''./rom.nds'',
            ''-9'', ''/tmp/tmpbndspacker/arm9.tmp.bin'',
            ''-7'', ''/tmp/tmpbndspacker/arm7.tmp.bin'',
            ''-e9'', ''33554432'', ''-r9'', ''0x2000000'',
            ''-e7'', ''37224448'',
            ''-g'', ''ENAE'', ''01'', ''NDSPACKER'', ''1'']
   \<and> load_settings (demo_env arm_dump [''game.elf'']) settings_world = Inr Map.empty
   \<and> packer_metadata Map.empty = (''01'', ''ABCD'', ''NITRO-SDK'')
   \<and> last (events (snd (main (demo_env arm_dump [''game.elf'']) ''llvm-'' settings_world))) =
       Run [''ndstool'', ''-c'', ''./rom.nds'',
            ''-9'', ''/tmp/tmpbndspacker/arm9.tmp.bin'',
            ''-7'', ''/tmp/tmpbndspacker/arm7.tmp.bin'',
            ''-e9'', ''33554432'', ''-r9'', ''0x2000000'',
            ''-e7'', ''37224448'',
            ''-g'', ''ABCD'', ''01'', ''NITRO-SDK'', ''1'']"
proof -
  have "last (events (snd (main (demo_env arm_dump [''game.elf'']) ''llvm-'' settings_world))) =
       Run [''ndstool'', ''-c'', ''./rom.nds'',
            ''-9'', ''/tmp/tmpbndspacker/arm9.tmp.bin'',
            ''-7'', ''/tmp/tmpbndspacker/arm7.tmp.bin'',
            ''-e9'', ''33554432'', ''-r9'', ''0x2000000'',
            ''-e7'', ''37224448'',
            ''-g'', ''ABCD'', ''01'', ''NITRO-SDK'', ''1'']"
    by (simp add: main_default_arm7 [OF settings_main_paths settings_load_settings demo_read_arm9]
        events_pack settings_events_read_arm9 settings_saved_blob str_demo_arm9_ep
        str_default_arm7_ep empty_metadata ndstool_command_def)
  then show ?thesis
    by (simp add: demo_load_settings default_metadata demo_main_events settings_load_settings
        empty_metadata)
qed

section \<open>The ARM7 entry point of an ELF\<close>

lemma in_set_dropWhile: "x \<in> set xs \<Longrightarrow> \<not> P x \<Longrightarrow> x \<in> set (dropWhile P xs)"
  by (induction xs) auto

lemma int_digits_bad:
  "b \<in> set cs \<Longrightarrow> digit_in base b = None \<Longrightarrow> b \<noteq> CHR ''_'' \<Longrightarrow> int_digits base acc k cs = None"
proof (induction base acc k cs rule: int_digits.induct)
  case (1 base acc k)
  then show ?case by simp
next
  case (2 base acc k c cs)
  show ?case
  proof (cases "c = CHR ''_''")
    case True
    with 2 show ?thesis
      by (cases cs) (auto split: option.splits)
  next
    case False
    with 2 show ?thesis
      by (auto split: option.splits)
  qed
qed

lemma int_magnitude_bad:
  assumes "b \<in> set s" "digit_in base b = None" "b \<noteq> CHR ''_''"
  shows "int_magnitude base s = Inl ValueError"
proof (cases s)
  case Nil
  then show ?thesis by (simp add: int_magnitude_def)
next
  case (Cons c cs)
  show ?thesis
  proof (cases "b = c")
    case True
    with assms Cons show ?thesis by (simp add: int_magnitude_def)
  next
    case False
    with assms Cons have "b \<in> set cs" by simp
    then have "int_digits base v 1 cs = None" for v
      using assms(2,3) by (rule int_digits_bad)
    then show ?thesis by (simp add: int_magnitude_def Cons split: option.splits)
  qed
qed

lemma py_int_not_decimal:
  assumes b: "b \<in> set s" and bad: "not_decimal b"
  shows "py_int s 10 = Inl ValueError"
proof -
  from bad have nd: "digit_in 10 b = None" and nu: "b \<noteq> CHR ''_''" and nsp: "\<not> is_int_space b"
    and nsign: "b \<noteq> CHR ''-''" "b \<noteq> CHR ''+''"
    by (simp_all add: not_decimal_def)
  let ?s1 = "dropWhile is_int_space s"
  have b1: "b \<in> set ?s1" using b nsp by (rule in_set_dropWhile)
  have b2: "b \<in> set (int_skip_sign ?s1)"
  proof (cases ?s1)
    case Nil
    with b1 show ?thesis by simp
  next
    case (Cons c cs)
    with b1 nsign show ?thesis by (auto simp add: int_skip_sign_def)
  qed
  then have "b \<in> set (int_skip_prefix 10 (int_skip_sign ?s1))"
    by (simp add: int_skip_prefix_def)
  then have "b \<in> set (rev (int_skip_prefix 10 (int_skip_sign ?s1)))" by simp
  then have "b \<in> set (dropWhile is_int_space (rev (int_skip_prefix 10 (int_skip_sign ?s1))))"
    using nsp by (rule in_set_dropWhile)
  then have "b \<in> set (rev (dropWhile is_int_space (rev (int_skip_prefix 10 (int_skip_sign ?s1)))))"
    by simp
  then have "int_magnitude 10 (rev (dropWhile is_int_space (rev (int_skip_prefix 10 (int_skip_sign ?s1)))))
      = Inl ValueError"
    using nd nu by (rule int_magnitude_bad)
  then show ?thesis by (simp add: py_int_def Let_def)
qed

lemma not_decimal_letters: "c = CHR ''x'' \<or> c = CHR ''X'' \<or> is_hex_letter c \<Longrightarrow> not_decimal c"
  by (auto simp add: is_hex_letter_def not_decimal_def digit_in_def digit_value_def char_code_def
      is_int_space_def)

lemma arm7_entry_point_rejects:
  assumes "prefix ''0x'' v \<or> prefix ''0X'' v \<or> (\<exists>c \<in> set v. is_hex_letter c)"
  shows "arm7_entry_point v = Inl ValueError"
proof -
  have "\<exists>b. b \<in> set v \<and> (b = CHR ''x'' \<or> b = CHR ''X'' \<or> is_hex_letter b)"
  proof -
    consider "prefix ''0x'' v" | "prefix ''0X'' v" | "\<exists>c \<in> set v. is_hex_letter c"
      using assms by blast
    then show ?thesis
    proof cases
      case 1
      then have "CHR ''x'' \<in> set v" by (auto simp add: prefix_def)
      then show ?thesis by blast
    next
      case 2
      then have "CHR ''X'' \<in> set v" by (auto simp add: prefix_def)
      then show ?thesis by blast
    next
      case 3
      then show ?thesis by blast
    qed
  qed
  then obtain b where "b \<in> set v" and "b = CHR ''x'' \<or> b = CHR ''X'' \<or> is_hex_letter b"
    by blast
  then show ?thesis
    unfolding arm7_entry_point_def by (intro py_int_not_decimal not_decimal_letters)
qed

lemma decimal_digit_facts:
  assumes "is_decimal_digit c"
  shows "digit_in 10 c = Some (decimal_digit c)" and "c \<noteq> CHR ''_''" and "\<not> is_int_space c"
    and "c \<noteq> CHR ''-''" and "c \<noteq> CHR ''+''"
proof -
  from assms have "c \<in> fst ` set (take 10 hex_table)"
    by (simp add: is_decimal_digit_def map_of_eq_None_iff)
  then have c: "c \<in> set ''0123456789''"
    by (simp add: hex_table_def)
  from c show "digit_in 10 c = Some (decimal_digit c)"
    by (auto simp add: digit_in_def digit_value_def char_code_def decimal_digit_def hex_table_def)
  from c show "c \<noteq> CHR ''_''" "c \<noteq> CHR ''-''" "c \<noteq> CHR ''+''"
    by auto
  from c show "\<not> is_int_space c"
    by (auto simp add: is_int_space_def char_code_def)
qed

lemma int_digits_decimal:
  "\<forall>c \<in> set cs. is_decimal_digit c \<Longrightarrow>
     int_digits 10 acc k cs = Some (foldl (\<lambda>a c. 10 * a + decimal_digit c) acc cs, k + length cs)"
proof (induction cs arbitrary: acc k)
  case Nil
  show ?case by simp
next
  case (Cons c cs)
  then have c: "is_decimal_digit c" and cs: "\<forall>c \<in> set cs. is_decimal_digit c" by simp_all
  show ?case
    using Cons.IH [OF cs, of "acc * 10 + decimal_digit c" "Suc k"] decimal_digit_facts(1,2) [OF c]
    by (simp add: mult.commute)
qed

lemma int_magnitude_decimal:
  assumes ne: "s \<noteq> []" and dec: "\<forall>c \<in> set s. is_decimal_digit c"
  shows "int_magnitude 10 s = (if 4300 < length s then Inl ValueError else Inr (decimal_number s))"
proof -
  from ne obtain c cs where s: "s = c # cs" by (cases s) auto
  from dec s have c: "is_decimal_digit c" and cs: "\<forall>c \<in> set cs. is_decimal_digit c" by simp_all
  have "int_digits 10 (decimal_digit c) 1 cs
      = Some (foldl (\<lambda>a c. 10 * a + decimal_digit c) (decimal_digit c) cs, 1 + length cs)"
    using cs by (rule int_digits_decimal)
  then show ?thesis
    using decimal_digit_facts(1) [OF c] by (simp add: int_magnitude_def s decimal_number_def)
qed

lemma py_int_decimal_digits:
  assumes ne: "s \<noteq> []" and dec: "\<forall>c \<in> set s. is_decimal_digit c"
  shows "py_int s 10 = (if 4300 < length s then Inl ValueError else Inr (int (decimal_number s)))"
proof -
  have first: "\<not> is_int_space (hd s)" and final: "\<not> is_int_space (last s)"
    using ne dec decimal_digit_facts(3) by (meson hd_in_set, meson last_in_set)
  have s1: "dropWhile is_int_space s = s"
    using ne first by (rule dropWhile_id)
  from ne obtain c cs where s: "s = c # cs" by (cases s) auto
  with dec have "is_decimal_digit c" by simp
  then have "c \<noteq> CHR ''-''" "c \<noteq> CHR ''+''"
    by (rule decimal_digit_facts(4), rule decimal_digit_facts(5))
  then have minus: "take 1 s \<noteq> ''-''" and plus: "take 1 s \<noteq> ''+''"
    by (simp_all add: s)
  have s2: "int_skip_prefix 10 (int_skip_sign s) = s"
    using minus plus by (simp add: int_skip_prefix_def int_skip_sign_def)
  have "dropWhile is_int_space (rev s) = rev s"
    using ne final by (intro dropWhile_id) (simp_all add: hd_rev)
  then have s3: "rev (dropWhile is_int_space (rev s)) = s" by simp
  show ?thesis
    unfolding py_int_def Let_def s1 s2 s3 int_magnitude_decimal [OF ne dec]
    using minus by simp
qed

lemma report_image_cases:
  "report_image e cpu ep image_data = None \<or> report_image e cpu ep image_data = Some MarkupError"
  by (simp add: report_image_def rich_print_def)

lemma fst_read_arm7:
  "fst (read_arm7 e P arm7_image w) =
     (case fst (load_arm7 e P arm7_image w) of
        Inl exc \<Rightarrow> Inl exc
      | Inr (arm7_ep, arm7_data) \<Rightarrow>
          if report_image e ''ARM7'' arm7_ep arm7_data = None then Inr (arm7_ep, arm7_data)
          else Inl MarkupError)"
proof (cases "load_arm7 e P arm7_image w")
  case (Pair r w1)
  show ?thesis
  proof (cases r)
    case (Inl exc)
    with Pair show ?thesis by (simp add: read_arm7_def)
  next
    case (Inr v7)
    obtain arm7_ep arm7_data where "v7 = (arm7_ep, arm7_data)" by (cases v7)
    with Pair Inr show ?thesis
      using report_image_cases [of e "''ARM7''" arm7_ep arm7_data]
      by (auto simp add: read_arm7_def)
  qed
qed

lemma main_arm7_raises:
  assumes paths: "main_paths e w = Inr (arm9_image, arm7_image)"
      and settings: "\<not> isl (load_settings e w)"
      and arm9: "fst (read_arm9 e P arm9_image w) = Inr r9"
      and arm7: "fst (read_arm7 e P arm7_image (snd (read_arm9 e P arm9_image w))) = Inl exc"
  shows "fst (main e P w) = Inl exc"
proof -
  from settings obtain st where st: "load_settings e w = Inr st"
    by (cases "load_settings e w") auto
  obtain ep9 d9 where r9: "r9 = (ep9, d9)" by (cases r9)
  have a9: "read_arm9 e P arm9_image w = (Inr (ep9, d9), snd (read_arm9 e P arm9_image w))"
    using arm9 r9 by (simp add: prod_eq_iff)
  obtain w2 where a7: "read_arm7 e P arm7_image (snd (read_arm9 e P arm9_image w)) = (Inl exc, w2)"
    using arm7 by (cases "read_arm7 e P arm7_image (snd (read_arm9 e P arm9_image w))") simp
  show ?thesis
    unfolding main_def by (simp add: paths st) (subst a9, simp add: a7)
qed

lemma main_arm7_returns:
  assumes paths: "main_paths e w = Inr (arm9_image, arm7_image)"
      and st: "load_settings e w = Inr st"
      and arm9: "fst (read_arm9 e P arm9_image w) = Inr (arm9_ep, arm9_data)"
      and arm7: "fst (read_arm7 e P arm7_image (snd (read_arm9 e P arm9_image w)))
                   = Inr (arm7_ep, arm7_data)"
  shows "main e P w = pack e st arm9_ep arm9_data arm7_ep arm7_data
                        (snd (read_arm7 e P arm7_image (snd (read_arm9 e P arm9_image w))))"
proof -
  obtain r9 w1 where a9: "read_arm9 e P arm9_image w = (r9, w1)"
    by (cases "read_arm9 e P arm9_image w")
  obtain r7 w2 where a7: "read_arm7 e P arm7_image w1 = (r7, w2)"
    by (cases "read_arm7 e P arm7_image w1")
  from arm9 a9 have r9: "r9 = Inr (arm9_ep, arm9_data)" and w1: "snd (read_arm9 e P arm9_image w) = w1"
    by simp_all
  from arm7 a7 w1 have r7: "r7 = Inr (arm7_ep, arm7_data)"
      and w2: "snd (read_arm7 e P arm7_image w1) = w2"
    by simp_all
  show ?thesis
    by (simp add: main_def paths st a9 r9 w1 a7 r7 w2)
qed

text \<open>
  Claim C10, as amended. When an ARM7 path is given whose suffix is not \<^verbatim>\<open>.nds\<close> and the
  run reaches its header dump (the messages before it are printed), the ARM7 entry point
  is \<^verbatim>\<open>int(v)\<close> of the whole \<^verbatim>\<open>entry_point_address\<close> value \<open>v\<close>, in base 10, with nothing
  stripped. A value of decimal digits only, at most 4300 of them, is parsed as the
  decimal number it spells, and \<^const>\<open>read_arm7\<close> returns that number with the extracted
  image unless the extraction or a message about the image raises. A value with the
  prefix \<^verbatim>\<open>0x\<close> or \<^verbatim>\<open>0X\<close>, or with one of the digits a-f or A-F that only hexadecimal has,
  makes the parse raise ValueError, which leaves \<^const>\<open>main\<close> uncaught (exit status 1).
\<close>

theorem arm7_elf_entry_point_decimal:
  assumes paths: "main_paths e w = Inr (arm9_image, Some p)"
      and settings: "\<not> isl (load_settings e w)"
      and arm9: "fst (read_arm9 e P arm9_image w) = Inr r9"
      and sfx: "path_suffix p \<noteq> ''.nds''"
      and reading: "rich_markup_ok e ''[cyan]reading ARM7 binary...''"
      and echo: "echoed e (readelf_command P p)"
      and out: "fst (subprocess_run e (readelf_command P p)
                  (files (snd (read_arm9 e P arm9_image w)))) = Inr out"
      and field: "header_field out ''entry_point_address'' = Inr v"
  shows "(v \<noteq> [] \<and> (\<forall>c \<in> set v. is_decimal_digit c) \<and> length v \<le> 4300 \<longrightarrow>
            py_int v 10 = Inr (int (decimal_number v))
          \<and> fst (read_arm7 e P (Some p) (snd (read_arm9 e P arm9_image w))) =
              (case fst (read_from_elf e P p
                          (snd (get_elf_headers e P p (snd (read_arm9 e P arm9_image w))))) of
                 Inl exc \<Rightarrow> Inl exc
               | Inr arm7_data \<Rightarrow>
                   if report_image e ''ARM7'' (int (decimal_number v)) arm7_data = None
                   then Inr (int (decimal_number v), arm7_data)
                   else Inl MarkupError))
       \<and> (prefix ''0x'' v \<or> prefix ''0X'' v \<or> (\<exists>c \<in> set v. is_hex_letter c) \<longrightarrow>
            py_int v 10 = Inl ValueError
          \<and> fst (main e P w) = Inl ValueError \<and> exit_code (fst (main e P w)) = 1)"
proof (intro conjI impI)
  note eq = load_arm7_elf [OF sfx reading echo out field]
  {
    assume dec: "v \<noteq> [] \<and> (\<forall>c \<in> set v. is_decimal_digit c) \<and> length v \<le> 4300"
    then show parsed: "py_int v 10 = Inr (int (decimal_number v))"
      by (simp add: py_int_decimal_digits)
    then have "arm7_entry_point v = Inr (int (decimal_number v))"
      by (simp add: arm7_entry_point_def)
    then show "fst (read_arm7 e P (Some p) (snd (read_arm9 e P arm9_image w))) =
              (case fst (read_from_elf e P p
                          (snd (get_elf_headers e P p (snd (read_arm9 e P arm9_image w))))) of
                 Inl exc \<Rightarrow> Inl exc
               | Inr arm7_data \<Rightarrow>
                   if report_image e ''ARM7'' (int (decimal_number v)) arm7_data = None
                   then Inr (int (decimal_number v), arm7_data)
                   else Inl MarkupError)"
      by (simp add: fst_read_arm7 eq split: sum.splits)
  }
  {
    assume bad: "prefix ''0x'' v \<or> prefix ''0X'' v \<or> (\<exists>c \<in> set v. is_hex_letter c)"
    then have rej: "arm7_entry_point v = Inl ValueError"
      by (rule arm7_entry_point_rejects)
    then show "py_int v 10 = Inl ValueError"
      by (simp add: arm7_entry_point_def)
    have "fst (read_arm7 e P (Some p) (snd (read_arm9 e P arm9_image w))) = Inl ValueError"
      by (simp add: fst_read_arm7 eq rej)
    with paths settings arm9 show m: "fst (main e P w) = Inl ValueError"
      by (rule main_arm7_raises)
    show "exit_code (fst (main e P w)) = 1"
      by (simp add: m exit_code_def)
  }
qed

text \<open>The header values \<^verbatim>\<open>8000\<close> and \<^verbatim>\<open>0x2000000\<close> and the runs on their dumps.\<close>

lemma decimal_number_example: "decimal_number ''8000'' = 8000"
  by (simp add: decimal_number_def decimal_digit_def hex_table_def)

lemma decimal_digits_example: "''8000'' \<noteq> [] \<and> (\<forall>c \<in> set ''8000''. is_decimal_digit c)"
  by (simp add: is_decimal_digit_def hex_table_def)

lemma decimal_arm7_entry_point: "arm7_entry_point ''8000'' = Inr 8000"
  using py_int_decimal_digits [of "''8000''"] decimal_digits_example
  by (simp add: arm7_entry_point_def decimal_number_example)

lemma decimal_arm9_entry_point: "arm9_entry_point ''8000'' = Inr 0"
proof -
  have "''00'' \<noteq> [] \<and> (\<forall>c \<in> set ''00''. is_hex_digit c)"
    by (simp add: is_hex_digit_def hex_table_def)
  then have "py_int ''00'' 16 = Inr (int (hex_number ''00''))"
    by (intro py_int_hex_digits) simp_all
  then show ?thesis
    by (simp add: arm9_entry_point_def hex_number_def hex_digit_def hex_table_def)
qed

lemma decimal_read_arm9:
  "fst (read_arm9 (demo_env decimal_dump args) ''llvm-'' p w) = Inr (0, [1, 2, 3])"
  by (simp add: read_arm9_ok [OF _ _ demo_readelf demo_header_fields(5,6) decimal_arm9_entry_point
        demo_read_from_elf] readelf_command_def)

lemma decimal_read_arm7:
  "fst (read_arm7 (demo_env decimal_dump args) ''llvm-'' (Some ''arm7.elf'') w) = Inr (8000, [1, 2, 3])"
proof -
  have sfx: "path_suffix ''arm7.elf'' \<noteq> ''.nds''"
    by (simp add: demo_path_str)
  have ec: "echoed (demo_env decimal_dump args) (readelf_command ''llvm-'' ''arm7.elf'')"
    by (simp add: readelf_command_def)
  show ?thesis
    by (simp add: fst_read_arm7 load_arm7_elf [OF sfx demo_prints(1) ec demo_readelf
          demo_header_fields(6)] decimal_arm7_entry_point demo_read_from_elf)
qed

lemma str_decimal_eps: "py_str_int 0 = Inr ''0''" "py_str_int 8000 = Inr ''8000''"
  by (simp_all add: py_str_int_def str_nat.simps digit_char_def)

lemma demo_pack_returns:
  assumes "py_str_int arm9_ep = Inr e9" and "py_str_int arm7_ep = Inr e7"
  shows "fst (pack (demo_env dump args) st arm9_ep arm9_data arm7_ep arm7_data w) = Inr ()"
proof -
  let ?e = "demo_env dump args"
  let ?command = "ndstool_command (saved_blob ?e w ''arm9.tmp.bin'') (saved_blob ?e w ''arm7.tmp.bin'')
      e9 e7 (packer_metadata st)"
  have head: "take 1 ?command = [''ndstool'']"
    by (rule take_1_ndstool_command)
  then obtain rest where "?command = ''ndstool'' # rest"
    by (cases ?command) simp_all
  then have "echoed ?e ?command"
    by simp
  from pack_started [OF assms this, of arm9_data arm7_data] show ?thesis
    by (auto simp add: demo_ndstool [OF head])
qed

text \<open>
  Claim C10 as stated fails on the header value \<^verbatim>\<open>8000\<close>, four hexadecimal digits: the
  parse raises nothing, the entry point is 8000 and the run returns.
\<close>

theorem arm7_hexadecimal_digits_counterexample:
  "path_suffix ''arm7.elf'' \<noteq> ''.nds''
   \<and> header_field decimal_dump ''entry_point_address'' = Inr ''8000''
   \<and> list_all is_hex_digit ''8000''
   \<and> py_int ''8000'' 10 = Inr 8000
   \<and> fst (read_arm7 (demo_env decimal_dump [''game.elf'', ''arm7.elf'']) ''llvm-'' (Some ''arm7.elf'')
            (snd (read_arm9 (demo_env decimal_dump [''game.elf'', ''arm7.elf'']) ''llvm-''
                    ''game.elf'' demo_world)))
       = Inr (8000, [1, 2, 3])
   \<and> fst (main (demo_env decimal_dump [''game.elf'', ''arm7.elf'']) ''llvm-'' demo_world) = Inr ()
   \<and> exit_code (fst (main (demo_env decimal_dump [''game.elf'', ''arm7.elf'']) ''llvm-'' demo_world)) = 0"
proof -
  let ?e = "demo_env decimal_dump [''game.elf'', ''arm7.elf'']"
  have sfx: "path_suffix ''arm7.elf'' \<noteq> ''.nds''"
    by (simp add: demo_path_str)
  have hex: "list_all is_hex_digit ''8000''"
    by (simp add: is_hex_digit_def hex_table_def)
  have parsed: "py_int ''8000'' 10 = Inr 8000"
    using decimal_arm7_entry_point by (simp add: arm7_entry_point_def)
  have m: "fst (main ?e ''llvm-'' demo_world) = Inr ()"
    by (simp add: main_arm7_returns [OF demo_main_paths(2) demo_load_settings decimal_read_arm9
          decimal_read_arm7] demo_pack_returns [OF str_decimal_eps])
  then have x: "exit_code (fst (main ?e ''llvm-'' demo_world)) = 0"
    by (simp add: exit_code_def)
  from sfx demo_header_fields(6) hex parsed decimal_read_arm7 m x show ?thesis
    by (intro conjI)
qed

text \<open>
  The run whose ARM7 dump has the entry point \<^verbatim>\<open>8000\<close>, read as the number 8000, and the run
  whose ARM7 dump has \<^verbatim>\<open>0x2000000\<close>, which ends with ValueError.
\<close>

theorem arm7_elf_entry_point_decimal_witness:
  "main_paths (demo_env decimal_dump [''game.elf'', ''arm7.elf'']) demo_world
     = Inr (''game.elf'', Some ''arm7.elf'')
   \<and> \<not> isl (load_settings (demo_env decimal_dump [''game.elf'', ''arm7.elf'']) demo_world)
   \<and> fst (read_arm9 (demo_env decimal_dump [''game.elf'', ''arm7.elf'']) ''llvm-'' ''game.elf'' demo_world)
       = Inr (0, [1, 2, 3])
   \<and> path_suffix ''arm7.elf'' \<noteq> ''.nds''
   \<and> rich_markup_ok (demo_env decimal_dump [''game.elf'', ''arm7.elf'']) ''[cyan]reading ARM7 binary...''
   \<and> echoed (demo_env decimal_dump [''game.elf'', ''arm7.elf'']) (readelf_command ''llvm-'' ''arm7.elf'')
   \<and> fst (subprocess_run (demo_env decimal_dump [''game.elf'', ''arm7.elf''])
            (readelf_command ''llvm-'' ''arm7.elf'')
            (files (snd (read_arm9 (demo_env decimal_dump [''game.elf'', ''arm7.elf'']) ''llvm-''
                          ''game.elf'' demo_world)))) = Inr decimal_dump
   \<and> header_field decimal_dump ''entry_point_address'' = Inr ''8000''
   \<and> ''8000'' \<noteq> [] \<and> list_all is_decimal_digit ''8000'' \<and> length ''8000'' \<le> 4300
   \<and> py_int ''8000'' 10 = Inr 8000
   \<and> fst (read_arm7 (demo_env decimal_dump [''game.elf'', ''arm7.elf'']) ''llvm-'' (Some ''arm7.elf'')
            (snd (read_arm9 (demo_env decimal_dump [''game.elf'', ''arm7.elf'']) ''llvm-''
                    ''game.elf'' demo_world)))
       = Inr (8000, [1, 2, 3])
   \<and> main_paths (demo_env arm_dump [''game.elf'', ''arm7.elf'']) demo_world
     = Inr (''game.elf'', Some ''arm7.elf'')
   \<and> \<not> isl (load_settings (demo_env arm_dump [''game.elf'', ''arm7.elf'']) demo_world)
   \<and> fst (read_arm9 (demo_env arm_dump [''game.elf'', ''arm7.elf'']) ''llvm-'' ''game.elf'' demo_world)
       = Inr (0x2000000, [1, 2, 3])
   \<and> rich_markup_ok (demo_env arm_dump [''game.elf'', ''arm7.elf'']) ''[cyan]reading ARM7 binary...''
   \<and> echoed (demo_env arm_dump [''game.elf'', ''arm7.elf'']) (readelf_command ''llvm-'' ''arm7.elf'')
   \<and> fst (subprocess_run (demo_env arm_dump [''game.elf'', ''arm7.elf''])
            (readelf_command ''llvm-'' ''arm7.elf'')
            (files (snd (read_arm9 (demo_env arm_dump [''game.elf'', ''arm7.elf'']) ''llvm-''
                          ''game.elf'' demo_world)))) = Inr arm_dump
   \<and> header_field arm_dump ''entry_point_address'' = Inr ''0x2000000''
   \<and> prefix ''0x'' ''0x2000000''
   \<and> py_int ''0x2000000'' 10 = Inl ValueError
   \<and> fst (main (demo_env arm_dump [''game.elf'', ''arm7.elf'']) ''llvm-'' demo_world) = Inl ValueError
   \<and> exit_code (fst (main (demo_env arm_dump [''game.elf'', ''arm7.elf'']) ''llvm-'' demo_world)) = 1"
proof -
  let ?d = "demo_env decimal_dump [''game.elf'', ''arm7.elf'']"
  let ?e = "demo_env arm_dump [''game.elf'', ''arm7.elf'']"
  have sd: "\<not> isl (load_settings ?d demo_world)" and s: "\<not> isl (load_settings ?e demo_world)"
    by (simp_all add: demo_load_settings)
  have x: "path_suffix ''arm7.elf'' \<noteq> ''.nds''"
    by (simp add: demo_path_str)
  have pd: "rich_markup_ok ?d ''[cyan]reading ARM7 binary...''"
    and p: "rich_markup_ok ?e ''[cyan]reading ARM7 binary...''"
    by simp_all
  have ecd: "echoed ?d (readelf_command ''llvm-'' ''arm7.elf'')"
    and ec: "echoed ?e (readelf_command ''llvm-'' ''arm7.elf'')"
    by (simp_all add: readelf_command_def)
  have dec: "''8000'' \<noteq> []" "list_all is_decimal_digit ''8000''" "length ''8000'' \<le> 4300"
    using decimal_digits_example by (simp_all add: list_all_iff)
  have px: "prefix ''0x'' ''0x2000000''" by simp
  from arm7_elf_entry_point_decimal [OF demo_main_paths(2) sd decimal_read_arm9 x pd ecd
      demo_readelf demo_header_fields(6)] decimal_digits_example
  have good: "py_int ''8000'' 10 = Inr 8000"
      "fst (read_arm7 ?d ''llvm-'' (Some ''arm7.elf'') (snd (read_arm9 ?d ''llvm-'' ''game.elf'' demo_world)))
         = Inr (8000, [1, 2, 3])"
    by (simp_all add: decimal_number_example demo_read_from_elf)
  from arm7_elf_entry_point_decimal [OF demo_main_paths(2) s demo_read_arm9 x p ec demo_readelf
      demo_header_fields(3)] px
  have bad: "py_int ''0x2000000'' 10 = Inl ValueError"
      "fst (main ?e ''llvm-'' demo_world) = Inl ValueError"
      "exit_code (fst (main ?e ''llvm-'' demo_world)) = 1"
    by blast+
  from demo_main_paths(2) [of decimal_dump] sd decimal_read_arm9 x pd ecd demo_readelf
    demo_header_fields(6) dec good
    demo_main_paths(2) [of arm_dump] s demo_read_arm9 p ec demo_readelf demo_header_fields(3) px bad
  show ?thesis by (intro conjI)
qed

section \<open>The tool prefix\<close>

text \<open>
  Claim C8. The prefix is resolved when the module is loaded, before \<^const>\<open>main\<close> runs:
  \<^verbatim>\<open>arm-none-eabi-readelf\<close> is probed first and gives \<^verbatim>\<open>arm-none-eabi-\<close> (also when the LLVM
  tool is installed too), otherwise \<^verbatim>\<open>llvm-readelf\<close> gives \<^verbatim>\<open>llvm-\<close>, and \<^const>\<open>main\<close> runs
  with the prefix found. When neither is found the run ends at once with
  FileNotFoundError, the world untouched: no command run, no file written.
\<close>

theorem tool_prefix_resolution:
  "(shutil_which e ''arm-none-eabi-readelf'' \<noteq> None \<longrightarrow>
      get_tool_prefix e = Inr ''arm-none-eabi-'' \<and> program e w = main e ''arm-none-eabi-'' w)
   \<and> (shutil_which e ''arm-none-eabi-readelf'' = None \<and> shutil_which e ''llvm-readelf'' \<noteq> None \<longrightarrow>
      get_tool_prefix e = Inr ''llvm-'' \<and> program e w = main e ''llvm-'' w)
   \<and> (shutil_which e ''arm-none-eabi-readelf'' = None \<and> shutil_which e ''llvm-readelf'' = None \<longrightarrow>
      get_tool_prefix e = Inl FileNotFoundError
      \<and> program e w = (Inl FileNotFoundError, w)
      \<and> exit_code (fst (program e w)) = 1)"
  by (simp add: get_tool_prefix_def program_def exit_code_def)

theorem tool_prefix_resolution_witness:
  "shutil_which both_tools_env ''arm-none-eabi-readelf'' \<noteq> None
   \<and> shutil_which both_tools_env ''llvm-readelf'' \<noteq> None
   \<and> get_tool_prefix both_tools_env = Inr ''arm-none-eabi-''
   \<and> shutil_which (demo_env arm_dump [''game.elf'']) ''arm-none-eabi-readelf'' = None
   \<and> shutil_which (demo_env arm_dump [''game.elf'']) ''llvm-readelf'' \<noteq> None
   \<and> get_tool_prefix (demo_env arm_dump [''game.elf'']) = Inr ''llvm-''
   \<and> shutil_which no_tools_env ''arm-none-eabi-readelf'' = None
   \<and> shutil_which no_tools_env ''llvm-readelf'' = None
   \<and> program no_tools_env demo_world = (Inl FileNotFoundError, demo_world)"
proof -
  have b: "shutil_which both_tools_env ''arm-none-eabi-readelf'' \<noteq> None"
      "shutil_which both_tools_env ''llvm-readelf'' \<noteq> None"
    by (simp_all add: both_tools_env_def)
  have d: "shutil_which (demo_env arm_dump [''game.elf'']) ''arm-none-eabi-readelf'' = None"
      "shutil_which (demo_env arm_dump [''game.elf'']) ''llvm-readelf'' \<noteq> None"
    by (simp_all add: demo_env_def)
  have n: "shutil_which no_tools_env ''arm-none-eabi-readelf'' = None"
      "shutil_which no_tools_env ''llvm-readelf'' = None"
    by (simp_all add: no_tools_env_def)
  from tool_prefix_resolution [of both_tools_env demo_world] b
  have r1: "get_tool_prefix both_tools_env = Inr ''arm-none-eabi-''" by blast
  from tool_prefix_resolution [of "demo_env arm_dump [''game.elf'']" demo_world] d
  have r2: "get_tool_prefix (demo_env arm_dump [''game.elf'']) = Inr ''llvm-''" by blast
  from tool_prefix_resolution [of no_tools_env demo_world] n
  have r3: "program no_tools_env demo_world = (Inl FileNotFoundError, demo_world)" by blast
  from b r1 d r2 n r3 show ?thesis by (intro conjI)
qed

end
